theory Spec2Isabelle
  imports Main
begin

section \<open>The client-side navigation engine (router)\<close>

text \<open>
  A shallow embedding of the router module: the data-fetch layer (\<open>fetchRetry\<close>,
  \<open>fetchNextData\<close>), the route resolution helpers (\<open>resolveDynamicRoute\<close>,
  \<open>interpolateAs\<close>, \<open>getMiddlewareData\<close>) and the parts of the \<open>Router\<close> class
  that sequence a navigation (\<open>change\<close>, \<open>changeState\<close>, \<open>set\<close>, \<open>onPopState\<close>,
  the cancellation handlers).

  JavaScript strings are \<open>string\<close>; a value that may be \<open>null\<close> or \<open>undefined\<close> is an
  \<open>option\<close>; a thrown error or a rejected promise is the \<open>Inl\<close> branch of a sum.
  An asynchronous operation is split at its suspension points: what runs before an
  \<open>await\<close> and what runs when the awaited promise settles are separate functions on the
  router's state, so that other work can be interleaved between them.
\<close>

subsection \<open>Errors\<close>

text \<open>
  The errors the module builds or inspects. \<open>cancelled\<close> is the \<open>cancelled\<close> property the
  handlers test; \<open>asset\<close> is the mark left by \<open>markAssetError\<close>.
\<close>

record js_error =
  message :: string
  cancelled :: bool
  asset :: bool

definition mk_error :: "string \<Rightarrow> js_error" where
  "mk_error m = \<lparr>message = m, cancelled = False, asset = False\<rparr>"

definition buildCancellationError :: js_error where
  "buildCancellationError = (mk_error ''Route Cancelled'')\<lparr>cancelled := True\<rparr>"


subsection \<open>Requests and responses\<close>

record request =
  req_url :: string
  req_method :: string
  req_headers :: "(string \<times> string) list"
  req_credentials :: string

record response =
  status :: nat
  headers :: "string \<rightharpoonup> string"
  body :: string

text \<open>\<open>Response.ok\<close>: the status is in the range 200 to 299.\<close>

definition ok :: "response \<Rightarrow> bool" where
  "ok r = (200 \<le> status r \<and> status r \<le> 299)"

record fetch_options =
  opt_method :: "string option"
  opt_headers :: "(string \<times> string) list"

text \<open>
  The request \<open>fetchRetry\<close> hands to \<open>fetch\<close>: same-origin credentials, the method of the
  options or \<open>GET\<close>, and the options' headers followed by \<open>x-nextjs-data: 1\<close>.
\<close>

definition fetch_request :: "string \<Rightarrow> fetch_options \<Rightarrow> request" where
  "fetch_request url options =
     \<lparr>req_url = url,
      req_method = (case opt_method options of None \<Rightarrow> ''GET'' | Some m \<Rightarrow> (if m = [] then ''GET'' else m)),
      req_headers = opt_headers options @ [(''x-nextjs-data'', ''1'')],
      req_credentials = ''same-origin''\<rparr>"

text \<open>
  The network is an oracle: \<open>net req n\<close> is how the \<open>n\<close>-th call of \<open>fetch\<close> settles when
  it carries the request \<open>req\<close>, a rejection (\<open>Inl\<close>) or a response. The number of calls
  issued so far is threaded through as state.
\<close>

type_synonym network = "request \<Rightarrow> nat \<Rightarrow> js_error + response"

function fetchRetry ::
  "network \<Rightarrow> string \<Rightarrow> int \<Rightarrow> fetch_options \<Rightarrow> nat \<Rightarrow> (js_error + response) \<times> nat" where
  "fetchRetry net url attempts options n =
     (case net (fetch_request url options) n of
        Inl e \<Rightarrow> (Inl e, Suc n)
      | Inr r \<Rightarrow>
          (if \<not> ok r \<and> attempts > 1 \<and> status r \<ge> 500
           then fetchRetry net url (attempts - 1) options (Suc n)
           else (Inr r, Suc n)))"
  by pat_completeness auto
termination
  by (relation "measure (\<lambda>(net, url, attempts, options, n). nat attempts)") auto

declare fetchRetry.simps [simp del]

subsection \<open>Properties of fetchRetry\<close>

lemma fetchRetry_calls_lower: "n < snd (fetchRetry net url attempts options n)"
proof (induction net url attempts options n rule: fetchRetry.induct)
  case (1 net url attempts options n)
  show ?case
  proof (cases "net (fetch_request url options) n")
    case (Inl e)
    then show ?thesis by (simp add: fetchRetry.simps [of net url attempts options n])
  next
    case (Inr r)
    show ?thesis
    proof (cases "\<not> ok r \<and> attempts > 1 \<and> status r \<ge> 500")
      case True
      with Inr "1.IH" [of r] have "Suc n < snd (fetchRetry net url (attempts - 1) options (Suc n))"
        by simp
      with True Inr show ?thesis
        by (simp add: fetchRetry.simps [of net url attempts options n])
    next
      case False
      with Inr show ?thesis
        by (auto simp add: fetchRetry.simps [of net url attempts options n])
    qed
  qed
qed

lemma fetchRetry_calls_upper:
  "snd (fetchRetry net url attempts options n) \<le> n + max 1 (nat attempts)"
proof (induction net url attempts options n rule: fetchRetry.induct)
  case (1 net url attempts options n)
  show ?case
  proof (cases "net (fetch_request url options) n")
    case (Inl e)
    then show ?thesis by (simp add: fetchRetry.simps [of net url attempts options n])
  next
    case (Inr r)
    show ?thesis
    proof (cases "\<not> ok r \<and> attempts > 1 \<and> status r \<ge> 500")
      case True
      with Inr "1.IH" [of r]
      have "snd (fetchRetry net url (attempts - 1) options (Suc n))
              \<le> Suc n + max 1 (nat (attempts - 1))"
        by simp
      moreover from True have "Suc (max 1 (nat (attempts - 1))) \<le> max 1 (nat attempts)"
        by auto
      ultimately show ?thesis using True Inr
        by (simp add: fetchRetry.simps [of net url attempts options n])
    next
      case False
      with Inr show ?thesis
        by (auto simp add: fetchRetry.simps [of net url attempts options n])
    qed
  qed
qed

lemma fetchRetry_no_retry:
  assumes "net (fetch_request url options) n = Inr r" and "ok r \<or> attempts \<le> 1 \<or> status r < 500"
  shows "fetchRetry net url attempts options n = (Inr r, Suc n)"
  using assms by (auto simp add: fetchRetry.simps [of net url attempts options n])

lemma fetchRetry_rejected:
  assumes "net (fetch_request url options) n = Inl e"
  shows "fetchRetry net url attempts options n = (Inl e, Suc n)"
  using assms by (simp add: fetchRetry.simps [of net url attempts options n])

lemma fetchRetry_retried_only_if:
  assumes "Suc n < snd (fetchRetry net url attempts options n)"
  shows "\<exists>r. net (fetch_request url options) n = Inr r \<and> \<not> ok r \<and> 500 \<le> status r \<and> 1 < attempts"
proof (cases "net (fetch_request url options) n")
  case (Inl e)
  with assms show ?thesis by (simp add: fetchRetry_rejected)
next
  case (Inr r)
  show ?thesis
  proof (cases "ok r \<or> attempts \<le> 1 \<or> status r < 500")
    case True
    with Inr assms show ?thesis by (simp add: fetchRetry_no_retry)
  next
    case False
    with Inr show ?thesis by auto
  qed
qed

lemma fetchRetry_all_server_errors:
  assumes "\<forall>k < nat attempts. \<exists>r. net (fetch_request url options) (n + k) = Inr r \<and> 500 \<le> status r"
    and "1 \<le> attempts"
  shows "fetchRetry net url attempts options n
           = (net (fetch_request url options) (n + nat attempts - 1), n + nat attempts)"
  using assms
proof (induction net url attempts options n rule: fetchRetry.induct)
  case (1 net url attempts options n)
  from "1.prems"(2) have "0 < nat attempts" by simp
  with "1.prems"(1) have "\<exists>r. net (fetch_request url options) (n + 0) = Inr r \<and> 500 \<le> status r"
    by blast
  then obtain r where r: "net (fetch_request url options) n = Inr r" "500 \<le> status r"
    by auto
  then have nok: "\<not> ok r" by (simp add: ok_def)
  show ?case
  proof (cases "attempts = 1")
    case True
    with r show ?thesis by (simp add: fetchRetry_no_retry)
  next
    case False
    with "1.prems"(2) have gt: "1 < attempts" by simp
    have shift: "\<forall>k < nat (attempts - 1). \<exists>r. net (fetch_request url options) (Suc n + k) = Inr r \<and> 500 \<le> status r"
    proof (intro allI impI)
      fix k assume "k < nat (attempts - 1)"
      with gt have "Suc k < nat attempts" by linarith
      with "1.prems"(1) have "\<exists>r. net (fetch_request url options) (n + Suc k) = Inr r \<and> 500 \<le> status r"
        by blast
      then show "\<exists>r. net (fetch_request url options) (Suc n + k) = Inr r \<and> 500 \<le> status r"
        by simp
    qed
    from gt nok r have step: "fetchRetry net url attempts options n
        = fetchRetry net url (attempts - 1) options (Suc n)"
      by (simp add: fetchRetry.simps [of net url attempts options n])
    from gt nok r have c: "\<not> ok r \<and> 1 < attempts \<and> 500 \<le> status r" by simp
    from gt have le: "1 \<le> attempts - 1" by simp
    have ih: "fetchRetry net url (attempts - 1) options (Suc n)
        = (net (fetch_request url options) (Suc n + nat (attempts - 1) - 1), Suc n + nat (attempts - 1))"
      by (rule "1.IH" [OF r(1) c shift le])
    from gt have e: "Suc n + nat (attempts - 1) = n + nat attempts" by linarith
    show ?thesis unfolding step ih e ..
  qed
qed


text \<open>A response with the given status, no headers and the given body.\<close>

definition plain_response :: "nat \<Rightarrow> string \<Rightarrow> response" where
  "plain_response s b = \<lparr>status = s, headers = Map.empty, body = b\<rparr>"

text \<open>A network where every call is answered with the same status.\<close>

definition constant_network :: "nat \<Rightarrow> network" where
  "constant_network s = (\<lambda>req n. Inr (plain_response s []))"

text \<open>
  Claim C7. \<open>fetchRetry\<close> with a configured attempt count of at least one (its caller
  passes 3 or 1) issues at least one and at most that many requests; a second request is
  issued only when the first response is not ok, has a status of 500 or more and more than
  one attempt remains; a response with a status below 500 (404 among them) is returned as
  it is after a single request; and when every response is a 503, exactly the configured
  number of requests is issued and the last 503 is returned.
\<close>

theorem fetchRetry_bounded_retry_on_5xx:
  assumes "1 \<le> attempts"
  shows "n < snd (fetchRetry net url attempts options n)
       \<and> snd (fetchRetry net url attempts options n) \<le> n + nat attempts
       \<and> (Suc n < snd (fetchRetry net url attempts options n) \<longrightarrow>
            (\<exists>r. net (fetch_request url options) n = Inr r \<and> \<not> ok r \<and> 500 \<le> status r \<and> 1 < attempts))
       \<and> (\<forall>r. net (fetch_request url options) n = Inr r \<and> status r < 500 \<longrightarrow>
            fetchRetry net url attempts options n = (Inr r, Suc n))
       \<and> ((\<forall>k < nat attempts. \<exists>r. net (fetch_request url options) (n + k) = Inr r \<and> status r = 503) \<longrightarrow>
            fetchRetry net url attempts options n
              = (net (fetch_request url options) (n + nat attempts - 1), n + nat attempts))"
proof (intro conjI)
  show "n < snd (fetchRetry net url attempts options n)"
    by (rule fetchRetry_calls_lower)
next
  from assms have "max 1 (nat attempts) = nat attempts" by simp
  with fetchRetry_calls_upper [of net url attempts options n]
  show "snd (fetchRetry net url attempts options n) \<le> n + nat attempts" by simp
next
  show "Suc n < snd (fetchRetry net url attempts options n) \<longrightarrow>
      (\<exists>r. net (fetch_request url options) n = Inr r \<and> \<not> ok r \<and> 500 \<le> status r \<and> 1 < attempts)"
    by (rule impI) (rule fetchRetry_retried_only_if)
next
  show "\<forall>r. net (fetch_request url options) n = Inr r \<and> status r < 500 \<longrightarrow>
      fetchRetry net url attempts options n = (Inr r, Suc n)"
    by (simp add: fetchRetry_no_retry)
next
  show "(\<forall>k < nat attempts. \<exists>r. net (fetch_request url options) (n + k) = Inr r \<and> status r = 503) \<longrightarrow>
      fetchRetry net url attempts options n
        = (net (fetch_request url options) (n + nat attempts - 1), n + nat attempts)"
  proof
    assume a: "\<forall>k < nat attempts. \<exists>r. net (fetch_request url options) (n + k) = Inr r \<and> status r = 503"
    have "\<forall>k < nat attempts. \<exists>r. net (fetch_request url options) (n + k) = Inr r \<and> 500 \<le> status r"
    proof (intro allI impI)
      fix k assume "k < nat attempts"
      with a obtain r where "net (fetch_request url options) (n + k) = Inr r" "status r = 503"
        by blast
      then show "\<exists>r. net (fetch_request url options) (n + k) = Inr r \<and> 500 \<le> status r"
        by simp
    qed
    then show "fetchRetry net url attempts options n
        = (net (fetch_request url options) (n + nat attempts - 1), n + nat attempts)"
      using assms by (rule fetchRetry_all_server_errors)
  qed
qed

text \<open>
  With three attempts, a server that always answers 503 is asked three times and the
  503 is returned; a server that answers 404 is asked once.
\<close>

theorem fetchRetry_bounded_retry_on_5xx_witness:
  "fetchRetry (constant_network 503) ''/_next/data/b/p.json'' 3 \<lparr>opt_method = None, opt_headers = []\<rparr> 0
     = (Inr (plain_response 503 []), 3)
   \<and> fetchRetry (constant_network 404) ''/_next/data/b/p.json'' 3 \<lparr>opt_method = None, opt_headers = []\<rparr> 0
     = (Inr (plain_response 404 []), 1)"
proof -
  have h: "(1::int) \<le> 3" by simp
  note t503 = fetchRetry_bounded_retry_on_5xx [OF h, of 0 "constant_network 503"
      "''/_next/data/b/p.json''" "\<lparr>opt_method = None, opt_headers = []\<rparr>"]
  note t404 = fetchRetry_bounded_retry_on_5xx [OF h, of 0 "constant_network 404"
      "''/_next/data/b/p.json''" "\<lparr>opt_method = None, opt_headers = []\<rparr>"]
  from t503 have "fetchRetry (constant_network 503) ''/_next/data/b/p.json'' 3 \<lparr>opt_method = None, opt_headers = []\<rparr> 0
     = (Inr (plain_response 503 []), 3)"
    by (simp add: constant_network_def plain_response_def)
  moreover from t404 have "fetchRetry (constant_network 404) ''/_next/data/b/p.json'' 3 \<lparr>opt_method = None, opt_headers = []\<rparr> 0
     = (Inr (plain_response 404 []), 1)"
    by (simp add: constant_network_def plain_response_def)
  ultimately show ?thesis by simp
qed


subsection \<open>JavaScript string operations\<close>

text \<open>\<open>s.startsWith(p)\<close> and \<open>s.endsWith(p)\<close>.\<close>

definition startsWith :: "string \<Rightarrow> string \<Rightarrow> bool" where
  "startsWith s p = (take (length p) s = p)"

definition endsWith :: "string \<Rightarrow> string \<Rightarrow> bool" where
  "endsWith s p = (length p \<le> length s \<and> drop (length s - length p) s = p)"

text \<open>\<open>s.includes(p)\<close>: \<open>p\<close> occurs in \<open>s\<close> at some position.\<close>

fun str_includes :: "string \<Rightarrow> string \<Rightarrow> bool" where
  "str_includes [] p = (p = [])"
| "str_includes (c # cs) p = (startsWith (c # cs) p \<or> str_includes cs p)"

text \<open>
  \<open>s.split(sep)\<close> for a one-character separator: the pieces between the separators, so
  that the empty string gives one empty piece.
\<close>

fun split_on :: "char \<Rightarrow> string \<Rightarrow> string list" where
  "split_on sep [] = [[]]"
| "split_on sep (c # cs) =
     (if c = sep then [] # split_on sep cs
      else (case split_on sep cs of [] \<Rightarrow> [[c]] | x # xs \<Rightarrow> (c # x) # xs))"

text \<open>\<open>xs.join(sep)\<close>.\<close>

fun join :: "string \<Rightarrow> string list \<Rightarrow> string" where
  "join sep [] = []"
| "join sep [x] = x"
| "join sep (x # y # ys) = x @ sep @ join sep (y # ys)"


subsection \<open>Route utilities imported by the router\<close>

text \<open>
  The router imports its route utilities from other modules: \<open>removeTrailingSlash\<close>,
  \<open>denormalizePagePath\<close>, \<open>isDynamicRoute\<close>, \<open>getRouteRegex\<close> and \<open>getRouteMatcher\<close>. They are
  parameters of the model. A query value is a string, an array of strings or \<open>undefined\<close>;
  a route group says whether its placeholder repeats (a catch-all) and whether it is
  optional.
\<close>

datatype qvalue = QUndefined | QStr string | QArr "string list"

type_synonym query = "(string \<times> qvalue) list"

record route_group =
  repeat :: bool
  optional :: bool

record route_utils =
  removeTrailingSlash :: "string \<Rightarrow> string"
  denormalizePagePath :: "string \<Rightarrow> string"
  isDynamicRoute :: "string \<Rightarrow> bool"
  routeRegexGroups :: "string \<Rightarrow> (string \<times> route_group) list"
  routeRegexTest :: "string \<Rightarrow> string \<Rightarrow> bool"
  routeMatcher :: "string \<Rightarrow> string \<Rightarrow> js_error + query option"

text \<open>
  \<open>routeRegexGroups U route\<close> is \<open>getRouteRegex(route).groups\<close> with its keys in order,
  \<open>routeRegexTest U route path\<close> is \<open>getRouteRegex(route).re.test(path)\<close>, and
  \<open>routeMatcher U route path\<close> is \<open>getRouteMatcher(getRouteRegex(route))(path)\<close>: it
  throws when a captured value cannot be decoded, and \<open>None\<close> stands for \<open>false\<close>.
\<close>

subsection \<open>resolveDynamicRoute\<close>

text \<open>
  \<open>pages.some\<close> with a callback that assigns \<open>pathname = page\<close> and returns true at the
  first page that is dynamic and whose expression matches: \<open>find\<close> gives that page.
\<close>

definition resolveDynamicRoute :: "route_utils \<Rightarrow> string \<Rightarrow> string list \<Rightarrow> string" where
  "resolveDynamicRoute U pathname pages =
     (let cleanPathname = removeTrailingSlash U (denormalizePagePath U pathname) in
      if cleanPathname = ''/404'' \<or> cleanPathname = ''/_error'' then pathname
      else
        let pathname' =
          (if \<not> List.member pages cleanPathname
           then (case find (\<lambda>page. isDynamicRoute U page \<and> routeRegexTest U page cleanPathname) pages of
                   Some page \<Rightarrow> page
                 | None \<Rightarrow> pathname)
           else pathname)
        in removeTrailingSlash U pathname')"


subsection \<open>A reference instance of the route utilities\<close>

text \<open>
  Modelled from the spec: the utility modules (\<open>remove-trailing-slash\<close>,
  \<open>denormalize-page-path\<close>, \<open>is-dynamic\<close>, \<open>route-regex\<close>, \<open>route-matcher\<close>) are not among
  the sources, and the spec only names what they do (a route is "trailing-slash-stripped",
  a pattern is compiled "to a matcher/regex pair", placeholders are single, catch-all
  \<open>[...p]\<close> or optional catch-all \<open>[[...p]]\<close> segments). The instance below follows that
  reading, segment by segment. It is used to evaluate the router's functions on concrete
  inputs only: every general theorem is stated for an arbitrary instance.
\<close>

definition ref_removeTrailingSlash :: "string \<Rightarrow> string" where
  "ref_removeTrailingSlash route =
     (let r = (if endsWith route ''/'' then butlast route else route)
      in if r = [] then ''/'' else r)"

text \<open>A segment is a placeholder when it is bracketed and has something in between.\<close>

definition bracketed :: "string \<Rightarrow> bool" where
  "bracketed seg = (3 \<le> length seg \<and> hd seg = CHR ''['' \<and> last seg = CHR '']'')"

definition ref_isDynamicRoute :: "string \<Rightarrow> bool" where
  "ref_isDynamicRoute route = list_ex bracketed (tl (split_on CHR ''/'' route))"

definition ref_denormalizePagePath :: "string \<Rightarrow> string" where
  "ref_denormalizePagePath page =
     (let p = map (\<lambda>c. if c = CHR 0x5C then CHR ''/'' else c) page in
      if startsWith p ''/index/'' \<and> \<not> ref_isDynamicRoute p then drop 6 p
      else if p \<noteq> ''/index'' then p
      else ''/'')"

datatype segment = Static string | Param string route_group

definition parseParameter :: "string \<Rightarrow> segment" where
  "parseParameter param =
     (let opt = (startsWith param ''['' \<and> endsWith param '']'');
          p1 = (if opt then butlast (tl param) else param);
          rep = startsWith p1 ''...'';
          p2 = (if rep then drop 3 p1 else p1)
      in Param p2 \<lparr>repeat = rep, optional = opt\<rparr>)"

definition parseSegment :: "string \<Rightarrow> segment" where
  "parseSegment seg =
     (if startsWith seg ''['' \<and> endsWith seg '']'' then parseParameter (butlast (tl seg))
      else Static seg)"

definition routeSegments :: "string \<Rightarrow> segment list" where
  "routeSegments route = map parseSegment (split_on CHR ''/'' (drop 1 (ref_removeTrailingSlash route)))"

definition ref_routeRegexGroups :: "string \<Rightarrow> (string \<times> route_group) list" where
  "ref_routeRegexGroups route =
     concat (map (\<lambda>sg. case sg of Static _ \<Rightarrow> [] | Param name g \<Rightarrow> [(name, g)]) (routeSegments route))"

text \<open>
  The captures of a path against the segments, tried the way the compiled expression
  tries them: a single placeholder takes one non-empty segment, a catch-all the shortest
  non-empty text after which the rest matches, an optional catch-all is tried present
  before absent, and a trailing slash is allowed at the end.
\<close>

fun first_some :: "(nat \<Rightarrow> 'a option) \<Rightarrow> nat list \<Rightarrow> 'a option" where
  "first_some f [] = None"
| "first_some f (k # ks) = (case f k of Some r \<Rightarrow> Some r | None \<Rightarrow> first_some f ks)"

fun match_segments :: "segment list \<Rightarrow> string \<Rightarrow> (string \<times> string) list option" where
  "match_segments [] path = (if path = [] \<or> path = ''/'' then Some [] else None)"
| "match_segments (Static s # segs) path =
     (if startsWith path (CHR ''/'' # s) then match_segments segs (drop (Suc (length s)) path)
      else None)"
| "match_segments (Param name g # segs) path =
     (let present =
        (case path of
           [] \<Rightarrow> None
         | c # rest \<Rightarrow>
             if c \<noteq> CHR ''/'' then None
             else if repeat g then
               first_some (\<lambda>k. map_option (\<lambda>caps. (name, take k rest) # caps)
                                   (match_segments segs (drop k rest)))
                 [1 ..< Suc (length rest)]
             else
               (let cap = takeWhile (\<lambda>x. x \<noteq> CHR ''/'') rest in
                if cap = [] then None
                else map_option (\<lambda>caps. (name, cap) # caps)
                       (match_segments segs (drop (length cap) rest))))
      in case present of
           Some caps \<Rightarrow> Some caps
         | None \<Rightarrow> if optional g then match_segments segs path else None)"

definition ref_routeRegexTest :: "string \<Rightarrow> string \<Rightarrow> bool" where
  "ref_routeRegexTest route path = (match_segments (routeSegments route) path \<noteq> None)"


subsection \<open>Percent-encoding\<close>

text \<open>
  \<open>encodeURIComponent\<close> and \<open>decodeURIComponent\<close> on strings of bytes (the UTF-8 form of a
  JavaScript string): every byte outside the unreserved set becomes \<open>%XX\<close>. Decoding fails
  (\<open>None\<close>, a \<open>URIError\<close>) on a \<open>%\<close> that two hexadecimal digits do not follow.
\<close>

definition uri_unreserved :: "char \<Rightarrow> bool" where
  "uri_unreserved c =
     (List.member ''ABCDEFGHIJKLMNOPQRSTUVWXYZabcdefghijklmnopqrstuvwxyz0123456789-_.!~*()'' c
      \<or> c = CHR 0x27)"

definition hex_digit :: "nat \<Rightarrow> char" where
  "hex_digit n = ''0123456789ABCDEF'' ! (n mod 16)"

definition encode_byte :: "char \<Rightarrow> string" where
  "encode_byte c =
     (if uri_unreserved c then [c]
      else [CHR ''%'', hex_digit ((of_char c :: nat) div 16), hex_digit ((of_char c :: nat) mod 16)])"

definition encodeURIComponent :: "string \<Rightarrow> string" where
  "encodeURIComponent s = concat (map encode_byte s)"

definition hex_value :: "char \<Rightarrow> nat option" where
  "hex_value c =
     (let n = (of_char c :: nat) in
      if 48 \<le> n \<and> n \<le> 57 then Some (n - 48)
      else if 65 \<le> n \<and> n \<le> 70 then Some (n - 55)
      else if 97 \<le> n \<and> n \<le> 102 then Some (n - 87)
      else None)"

fun decodeURIComponent :: "string \<Rightarrow> string option" where
  "decodeURIComponent [] = Some []"
| "decodeURIComponent (c # h1 # h2 # rest) =
     (if c = CHR ''%'' then
        (case (hex_value h1, hex_value h2) of
           (Some a, Some b) \<Rightarrow> map_option (\<lambda>r. char_of (16 * a + b) # r) (decodeURIComponent rest)
         | _ \<Rightarrow> None)
      else map_option (\<lambda>r. c # r) (decodeURIComponent (h1 # h2 # rest)))"
| "decodeURIComponent (c # cs) =
     (if c = CHR ''%'' then None else map_option (\<lambda>r. c # r) (decodeURIComponent cs))"

text \<open>All elements of a list of optional values, or \<open>None\<close> when one is missing.\<close>

fun sequence_option :: "'a option list \<Rightarrow> 'a list option" where
  "sequence_option [] = Some []"
| "sequence_option (x # xs) =
     (case x of None \<Rightarrow> None | Some v \<Rightarrow> map_option (\<lambda>vs. v # vs) (sequence_option xs))"

text \<open>
  The parameters of a match: a capture with a slash is split and decoded piece by piece,
  a catch-all capture without one is a one-element array, any other capture is a decoded
  string. A capture that cannot be decoded makes the matcher throw.
\<close>

definition decode_capture :: "(string \<times> route_group) list \<Rightarrow> string \<times> string \<Rightarrow> (string \<times> qvalue) option" where
  "decode_capture groups cap =
     (case cap of (name, raw) \<Rightarrow>
        if List.member raw CHR ''/''
        then map_option (\<lambda>vs. (name, QArr vs)) (sequence_option (map decodeURIComponent (split_on CHR ''/'' raw)))
        else (case map_of groups name of
                Some g \<Rightarrow>
                  if repeat g then map_option (\<lambda>v. (name, QArr [v])) (decodeURIComponent raw)
                  else map_option (\<lambda>v. (name, QStr v)) (decodeURIComponent raw)
              | None \<Rightarrow> map_option (\<lambda>v. (name, QStr v)) (decodeURIComponent raw)))"

definition ref_routeMatcher :: "string \<Rightarrow> string \<Rightarrow> js_error + query option" where
  "ref_routeMatcher route path =
     (case match_segments (routeSegments route) path of
        None \<Rightarrow> Inr None
      | Some caps \<Rightarrow>
          (case sequence_option (map (decode_capture (ref_routeRegexGroups route)) caps) of
             None \<Rightarrow> Inl (mk_error ''failed to decode param'')
           | Some params \<Rightarrow> Inr (Some params)))"


definition ref_utils :: route_utils where
  "ref_utils =
     \<lparr>removeTrailingSlash = ref_removeTrailingSlash,
      denormalizePagePath = ref_denormalizePagePath,
      isDynamicRoute = ref_isDynamicRoute,
      routeRegexGroups = ref_routeRegexGroups,
      routeRegexTest = ref_routeRegexTest,
      routeMatcher = ref_routeMatcher\<rparr>"

subsection \<open>Properties of resolveDynamicRoute\<close>

lemma find_first_match:
  assumes "\<forall>q \<in> set pre. \<not> P q" and "P page"
  shows "find P (pre @ page # post) = Some page"
  using assms by (induction pre) auto

lemma resolveDynamicRoute_sentinel:
  assumes "removeTrailingSlash U (denormalizePagePath U pathname) = ''/404''
         \<or> removeTrailingSlash U (denormalizePagePath U pathname) = ''/_error''"
  shows "resolveDynamicRoute U pathname pages = pathname"
  unfolding resolveDynamicRoute_def Let_def using assms by (rule if_P)

lemma resolveDynamicRoute_known:
  assumes "c = removeTrailingSlash U (denormalizePagePath U pathname)"
    and "c \<noteq> ''/404''" and "c \<noteq> ''/_error''" and "c \<in> set pages"
  shows "resolveDynamicRoute U pathname pages = removeTrailingSlash U pathname"
proof -
  from assms(2,3) have n: "\<not> (c = ''/404'' \<or> c = ''/_error'')" by (intro notI, elim disjE) (erule notE, assumption)+
  from assms(4) have m: "List.member pages c" by (simp only: List.member_iff)
  show ?thesis
    unfolding resolveDynamicRoute_def Let_def assms(1) [symmetric]
    by (simp only: n m if_False if_True not_True_eq_False)
qed

lemma resolveDynamicRoute_dynamic:
  assumes "c = removeTrailingSlash U (denormalizePagePath U pathname)"
    and "c \<noteq> ''/404''" and "c \<noteq> ''/_error''" and "c \<notin> set pages"
    and "pages = pre @ page # post"
    and "isDynamicRoute U page" and "routeRegexTest U page c"
    and "\<forall>q \<in> set pre. \<not> (isDynamicRoute U q \<and> routeRegexTest U q c)"
  shows "resolveDynamicRoute U pathname pages = removeTrailingSlash U page"
proof -
  from assms(2,3) have n: "\<not> (c = ''/404'' \<or> c = ''/_error'')" by (intro notI, elim disjE) (erule notE, assumption)+
  from assms(4) have m: "\<not> List.member pages c" by (simp only: List.member_iff not_False_eq_True)
  from assms(6,7) have "isDynamicRoute U page \<and> routeRegexTest U page c" by (rule conjI)
  with assms(8) have "find (\<lambda>p. isDynamicRoute U p \<and> routeRegexTest U p c) (pre @ page # post) = Some page"
    by (rule find_first_match)
  then have f: "find (\<lambda>p. isDynamicRoute U p \<and> routeRegexTest U p c) pages = Some page"
    by (simp only: assms(5))
  show ?thesis
    unfolding resolveDynamicRoute_def Let_def assms(1) [symmetric]
    by (simp only: n m f if_False if_True not_False_eq_True option.case)
qed

text \<open>
  Claim C8, as amended. Let \<open>c\<close> be the pathname denormalized and stripped of its
  trailing slash. When \<open>c\<close> is \<open>/404\<close> or \<open>/_error\<close>, \<open>resolveDynamicRoute\<close> returns the
  pathname as it was given. Otherwise, when \<open>c\<close> is one of the known pages, it returns the
  pathname with its trailing slash stripped (so a pathname without one is unchanged); and
  when \<open>c\<close> is not a known page, it returns the first page, in listed order, that is
  dynamic and whose compiled expression matches \<open>c\<close>, with its trailing slash stripped.
\<close>

theorem resolveDynamicRoute_result:
  assumes c: "c = removeTrailingSlash U (denormalizePagePath U pathname)"
  shows "(c = ''/404'' \<or> c = ''/_error'' \<longrightarrow> resolveDynamicRoute U pathname pages = pathname)
       \<and> (c \<noteq> ''/404'' \<and> c \<noteq> ''/_error'' \<and> c \<in> set pages \<longrightarrow>
            resolveDynamicRoute U pathname pages = removeTrailingSlash U pathname)
       \<and> (\<forall>pre page post.
            c \<noteq> ''/404'' \<and> c \<noteq> ''/_error'' \<and> c \<notin> set pages \<and> pages = pre @ page # post
            \<and> isDynamicRoute U page \<and> routeRegexTest U page c
            \<and> (\<forall>q \<in> set pre. \<not> (isDynamicRoute U q \<and> routeRegexTest U q c)) \<longrightarrow>
            resolveDynamicRoute U pathname pages = removeTrailingSlash U page)"
proof (intro conjI allI impI)
  assume "c = ''/404'' \<or> c = ''/_error''"
  then show "resolveDynamicRoute U pathname pages = pathname"
    unfolding c by (rule resolveDynamicRoute_sentinel)
next
  assume "c \<noteq> ''/404'' \<and> c \<noteq> ''/_error'' \<and> c \<in> set pages"
  then show "resolveDynamicRoute U pathname pages = removeTrailingSlash U pathname"
    by (elim conjE) (rule resolveDynamicRoute_known [OF c])
next
  fix pre page post
  assume "c \<noteq> ''/404'' \<and> c \<noteq> ''/_error'' \<and> c \<notin> set pages \<and> pages = pre @ page # post
            \<and> isDynamicRoute U page \<and> routeRegexTest U page c
            \<and> (\<forall>q \<in> set pre. \<not> (isDynamicRoute U q \<and> routeRegexTest U q c))"
  then show "resolveDynamicRoute U pathname pages = removeTrailingSlash U page"
    by (elim conjE) (rule resolveDynamicRoute_dynamic [OF c])
qed

text \<open>
  With three known pages: \<open>/404/\<close> is returned as given, the known page \<open>/about\<close> is
  returned unchanged, and \<open>/blog/hello\<close> resolves to the first matching dynamic page.
\<close>

theorem resolveDynamicRoute_result_witness:
  "resolveDynamicRoute ref_utils ''/404/'' [''/about'', ''/[...all]'', ''/blog/[slug]''] = ''/404/''
   \<and> resolveDynamicRoute ref_utils ''/about'' [''/about'', ''/[...all]'', ''/blog/[slug]''] = ''/about''
   \<and> resolveDynamicRoute ref_utils ''/blog/hello'' [''/about'', ''/blog/[slug]'', ''/[...all]''] = ''/blog/[slug]''"
proof -
  have c1: "''/404'' = removeTrailingSlash ref_utils (denormalizePagePath ref_utils ''/404/'')"
    by code_simp
  have c2: "''/about'' = removeTrailingSlash ref_utils (denormalizePagePath ref_utils ''/about'')"
    by code_simp
  have c3: "''/blog/hello'' = removeTrailingSlash ref_utils (denormalizePagePath ref_utils ''/blog/hello'')"
    by code_simp
  have s2: "removeTrailingSlash ref_utils ''/about'' = ''/about''" by code_simp
  have s3: "removeTrailingSlash ref_utils ''/blog/[slug]'' = ''/blog/[slug]''" by code_simp
  have h1: "''/404'' = ''/404'' \<or> ''/404'' = ''/_error''" by (rule disjI1) (rule refl)
  have r1: "resolveDynamicRoute ref_utils ''/404/'' [''/about'', ''/[...all]'', ''/blog/[slug]''] = ''/404/''"
    by (rule mp [OF conjunct1 [OF resolveDynamicRoute_result [OF c1]] h1])
  have h2: "''/about'' \<noteq> ''/404'' \<and> ''/about'' \<noteq> ''/_error''
      \<and> ''/about'' \<in> set [''/about'', ''/[...all]'', ''/blog/[slug]'']"
    by code_simp
  have "resolveDynamicRoute ref_utils ''/about'' [''/about'', ''/[...all]'', ''/blog/[slug]'']
      = removeTrailingSlash ref_utils ''/about''"
    by (rule mp [OF conjunct1 [OF conjunct2 [OF resolveDynamicRoute_result [OF c2]]] h2])
  then have r2: "resolveDynamicRoute ref_utils ''/about'' [''/about'', ''/[...all]'', ''/blog/[slug]''] = ''/about''"
    by (simp only: s2)
  have h3: "''/blog/hello'' \<noteq> ''/404'' \<and> ''/blog/hello'' \<noteq> ''/_error''
      \<and> ''/blog/hello'' \<notin> set [''/about'', ''/blog/[slug]'', ''/[...all]'']
      \<and> [''/about'', ''/blog/[slug]'', ''/[...all]''] = [''/about''] @ ''/blog/[slug]'' # [''/[...all]'']
      \<and> isDynamicRoute ref_utils ''/blog/[slug]'' \<and> routeRegexTest ref_utils ''/blog/[slug]'' ''/blog/hello''
      \<and> (\<forall>q \<in> set [''/about'']. \<not> (isDynamicRoute ref_utils q \<and> routeRegexTest ref_utils q ''/blog/hello''))"
    by code_simp
  note t3 = conjunct2 [OF conjunct2 [OF resolveDynamicRoute_result [OF c3, of "[''/about'', ''/blog/[slug]'', ''/[...all]'']"]]]
  have "resolveDynamicRoute ref_utils ''/blog/hello'' [''/about'', ''/blog/[slug]'', ''/[...all]'']
      = removeTrailingSlash ref_utils ''/blog/[slug]''"
    by (rule mp [OF spec [OF spec [OF spec [OF t3, of "[''/about'']"], of "''/blog/[slug]''"], of "[''/[...all]'']"] h3])
  then have r3: "resolveDynamicRoute ref_utils ''/blog/hello'' [''/about'', ''/blog/[slug]'', ''/[...all]''] = ''/blog/[slug]''"
    by (simp only: s3)
  from r1 r2 r3 show ?thesis by (intro conjI)
qed

text \<open>
  The claim as stated fails for a pathname with a trailing slash: \<open>/about/\<close> cleans to the
  known page \<open>/about\<close>, and what is returned is \<open>/about\<close>, not the pathname unchanged.
\<close>

theorem resolveDynamicRoute_known_page_counterexample:
  "removeTrailingSlash ref_utils (denormalizePagePath ref_utils ''/about/'') = ''/about''
   \<and> List.member [''/about''] ''/about''
   \<and> resolveDynamicRoute ref_utils ''/about/'' [''/about''] = ''/about''
   \<and> resolveDynamicRoute ref_utils ''/about/'' [''/about''] \<noteq> ''/about/''"
  by code_simp

subsection \<open>interpolateAs\<close>




text \<open>\<open>String(v)\<close>: an array is its elements joined with commas.\<close>

fun js_string :: "qvalue \<Rightarrow> string" where
  "js_string QUndefined = ''undefined''"
| "js_string (QStr s) = s"
| "js_string (QArr xs) = join '','' xs"


definition replacement :: "route_group \<Rightarrow> qvalue \<Rightarrow> string" where
  "replacement g v =
     (if repeat g
      then join ''/'' (map encodeURIComponent (case v of QArr xs \<Rightarrow> xs | _ \<Rightarrow> [js_string v]))
      else encodeURIComponent (js_string v))"





record interpolated =
  params :: "string list"
  result :: string


subsection \<open>Properties of interpolateAs\<close>







text \<open>
  The replacement text never contains the character \<open>$\<close>, so \<open>replace\<close> inserts it as it
  is.
\<close>

lemma hex_digit_in: "hex_digit n \<in> set ''0123456789ABCDEF''"
  unfolding hex_digit_def by (rule nth_mem) simp

lemma dollar_not_unreserved: "\<not> uri_unreserved (CHR ''$'')"
  by code_simp

lemma dollar_not_in_encode_byte: "CHR ''$'' \<notin> set (encode_byte c)"
proof (cases "uri_unreserved c")
  case True
  with dollar_not_unreserved have "c \<noteq> CHR ''$''" by auto
  with True show ?thesis by (simp add: encode_byte_def)
next
  case False
  have "CHR ''$'' \<notin> set ''0123456789ABCDEF''" by simp
  with hex_digit_in have "\<And>n. CHR ''$'' \<noteq> hex_digit n" by metis
  with False show ?thesis by (simp add: encode_byte_def)
qed

lemma dollar_not_in_encodeURIComponent: "CHR ''$'' \<notin> set (encodeURIComponent s)"
  by (simp add: encodeURIComponent_def dollar_not_in_encode_byte)

lemma set_join: "set (join sep xs) \<subseteq> set sep \<union> \<Union> (set ` set xs)"
  by (induction sep xs rule: join.induct) auto

lemma dollar_not_in_replacement: "CHR ''$'' \<notin> set (replacement g v)"
proof (cases "repeat g")
  case True
  have "set (replacement g v)
      \<subseteq> set ''/'' \<union> \<Union> (set ` set (map encodeURIComponent (case v of QArr xs \<Rightarrow> xs | _ \<Rightarrow> [js_string v])))"
    using True by (simp only: replacement_def if_True set_join)
  then show ?thesis using dollar_not_in_encodeURIComponent by auto
next
  case False
  then show ?thesis by (simp add: replacement_def dollar_not_in_encodeURIComponent)
qed







subsection \<open>URL utilities imported by the router\<close>

text \<open>
  The URL helpers, too, come from modules outside this one and are parameters of the
  model. A parsed relative URL has a pathname and a query (the other parts, search, hash
  and href, are kept as they are); \<open>parsePath\<close> splits a path into pathname, query string
  and hash; \<open>getNextPathnameInfo\<close> and \<open>formatNextPathnameInfo\<close> take a pathname apart
  into base path, locale and build id and put it together again.
\<close>

record parsed_url =
  pathname :: string
  url_query :: query
  url_search :: string
  url_hash :: string

record parsed_path =
  path_pathname :: string
  path_query :: string
  path_hash :: string

record next_config =
  cfg_basePath :: string
  cfg_locales :: "string list option"
  cfg_trailingSlash :: bool

record pathname_info =
  info_pathname :: string
  info_locale :: "string option"
  info_basePath :: "string option"
  info_buildId :: "string option"
  info_defaultLocale :: "string option"
  info_trailingSlash :: "bool option"

record locale_path =
  lp_pathname :: string
  lp_detectedLocale :: "string option"

type_synonym rewrite_table = "(string \<times> string) list"

record rewrite_result =
  matchedPage :: bool
  parsedAs :: parsed_url
  rr_asPath :: string
  rr_resolvedHref :: "string option"
  externalDest :: bool

record url_utils =
  parseRelativeUrl :: "string \<Rightarrow> js_error + parsed_url"
  parsePath :: "string \<Rightarrow> parsed_path"
  getNextPathnameInfo :: "string \<Rightarrow> next_config option \<Rightarrow> pathname_info"
  formatNextPathnameInfo :: "pathname_info \<Rightarrow> string"
  addLocale :: "string \<Rightarrow> string option \<Rightarrow> string option \<Rightarrow> string"
  removeLocale :: "string \<Rightarrow> string option \<Rightarrow> string"
  addBasePath :: "string \<Rightarrow> bool \<Rightarrow> string"
  removeBasePath :: "string \<Rightarrow> string"
  hasBasePath :: "string \<Rightarrow> bool"
  normalizeLocalePath :: "string \<Rightarrow> string list option \<Rightarrow> locale_path"
  resolveRewrites ::
    "string \<Rightarrow> string list \<Rightarrow> rewrite_table \<Rightarrow> query \<Rightarrow> (string \<Rightarrow> string) \<Rightarrow> string list option \<Rightarrow> rewrite_result"
  formatWithValidation :: "parsed_url \<Rightarrow> string"

text \<open>
  \<open>getNextPathnameInfo U p cfg\<close> is \<open>getNextPathnameInfo(p, {nextConfig: cfg, parseData:
  true})\<close> (\<open>None\<close> when no \<open>nextConfig\<close> is passed); \<open>addLocale U p l d\<close> is
  \<open>addLocale(p, l, d)\<close>, where a locale of \<open>false\<close> or \<open>undefined\<close> is \<open>None\<close>;
  \<open>addBasePath U p required\<close> is \<open>addBasePath(p, required)\<close>. \<open>resolveRewrites\<close> is taken as
  a function of its arguments: the query of its \<open>parsedAs\<close> is what it leaves for the
  caller to merge. \<open>formatWithValidation\<close> formats a URL object, given here by its
  pathname, query and hash.
\<close>

subsection \<open>Objects\<close>

text \<open>\<open>Object.assign(q, m)\<close> on query objects: the keys of \<open>m\<close> are set in \<open>q\<close>, in order.\<close>

fun js_set :: "string \<Rightarrow> qvalue \<Rightarrow> query \<Rightarrow> query" where
  "js_set k v [] = [(k, v)]"
| "js_set k v ((k', v') # q) = (if k = k' then (k, v) # q else (k', v') # js_set k v q)"

definition object_assign :: "query \<Rightarrow> query \<Rightarrow> query" where
  "object_assign q m = fold (\<lambda>kv acc. js_set (fst kv) (snd kv) acc) m q"

text \<open>
  A header value or any other string that may be \<open>null\<close>: it is truthy when it is there
  and not empty; \<open>a || b\<close> is \<open>a\<close> when \<open>a\<close> is truthy and \<open>b\<close> otherwise.
\<close>

definition truthy_str :: "string option \<Rightarrow> bool" where
  "truthy_str a = (case a of None \<Rightarrow> False | Some s \<Rightarrow> s \<noteq> [])"

definition str_or :: "string option \<Rightarrow> string option \<Rightarrow> string option" where
  "str_or a b = (if truthy_str a then a else b)"

subsection \<open>getMiddlewareData\<close>

datatype middleware_effect =
    Next
  | Rewrite parsed_url string
  | RedirectInternal string string
  | RedirectExternal string

text \<open>
  What \<open>getMiddlewareData\<close> reads of the router and of the build: the router's base path,
  locales and default locale, the two build flags, and how \<open>getPageList()\<close> and
  \<open>getClientBuildManifest()\<close> settle (the manifest's \<open>__rewrites\<close>).
\<close>

record middleware_env =
  mw_routes :: route_utils
  mw_urls :: url_utils
  mw_basePath :: string
  mw_locales :: "string list option"
  mw_defaultLocale :: "string option"
  mw_trailingSlash :: bool
  mw_hasRewrites :: bool
  mw_getPageList :: "js_error + string list"
  mw_getClientBuildManifest :: "js_error + rewrite_table"

definition nextConfig :: "middleware_env \<Rightarrow> next_config" where
  "nextConfig E = \<lparr>cfg_basePath = mw_basePath E, cfg_locales = mw_locales E,
                   cfg_trailingSlash = mw_trailingSlash E\<rparr>"

text \<open>
  The rewrite target: the rewrite header, or else \<open>x-nextjs-matched-path\<close>, or else
  \<open>x-matched-path\<close> unless it contains one of the three sentinels.
\<close>

definition rewriteTarget :: "response \<Rightarrow> string option" where
  "rewriteTarget response =
     (let rewriteHeader = headers response ''x-nextjs-rewrite'';
          target = str_or rewriteHeader (headers response ''x-nextjs-matched-path'');
          matchedPath = headers response ''x-matched-path''
      in case matchedPath of
           None \<Rightarrow> target
         | Some m \<Rightarrow>
             if m \<noteq> [] \<and> \<not> truthy_str target
                \<and> \<not> str_includes m ''__next_data_catchall''
                \<and> \<not> str_includes m ''/_error''
                \<and> \<not> str_includes m ''/404''
             then Some m
             else target)"

text \<open>
  \<open>formatNextPathnameInfo({...getNextPathnameInfo(p, {nextConfig, parseData: true}),
  defaultLocale, buildId: ''})\<close> followed by the query string and the hash of the parsed
  path: the destination of a redirect.
\<close>

definition redirect_destination :: "middleware_env \<Rightarrow> string \<Rightarrow> string" where
  "redirect_destination E target =
     (let src = parsePath (mw_urls E) target;
          info = getNextPathnameInfo (mw_urls E) (path_pathname src) (Some (nextConfig E));
          pathname = formatNextPathnameInfo (mw_urls E)
            (info\<lparr>info_defaultLocale := mw_defaultLocale E, info_buildId := Some []\<rparr>)
      in pathname @ path_query src @ path_hash src)"

text \<open>
  The callback of \<open>Promise.all([getPageList(), getClientBuildManifest()]).then\<close> in the
  rewrite branch, given the pages and the rewrites.
\<close>

definition rewrite_effect ::
  "middleware_env \<Rightarrow> string \<Rightarrow> string option \<Rightarrow> parsed_url \<Rightarrow> pathname_info
     \<Rightarrow> string list \<Rightarrow> rewrite_table \<Rightarrow> js_error + middleware_effect" where
  "rewrite_effect E source rewriteHeader parsedRewriteTarget pathnameInfo pages rewrites =
     (let R = mw_routes E; U = mw_urls E;
          fsPathname = removeTrailingSlash R (info_pathname pathnameInfo);
          as0 = addLocale U (info_pathname pathnameInfo) (info_locale pathnameInfo) None;
          use_source = (isDynamicRoute R as0
             \<or> (\<not> truthy_str rewriteHeader
                \<and> List.member pages
                    (lp_pathname (normalizeLocalePath U (removeBasePath U as0) (mw_locales E)))))
      in case (if use_source then parseRelativeUrl U source else Inr parsedRewriteTarget) of
           Inl e \<Rightarrow> Inl e
         | Inr parsedSourceUrl \<Rightarrow>
             let as1 = (if use_source
                        then addBasePath U (info_pathname (getNextPathnameInfo U (pathname parsedSourceUrl) None)) False
                        else as0);
                 target1 = (if use_source then parsedRewriteTarget\<lparr>pathname := as1\<rparr> else parsedRewriteTarget);
                 result = resolveRewrites U as1 pages rewrites (url_query target1)
                            (\<lambda>path. resolveDynamicRoute R path pages) (mw_locales E);
                 matched = (mw_hasRewrites E \<and> matchedPage result);
                 target2 = (if matched
                            then target1\<lparr>pathname := pathname (parsedAs result),
                                         url_query := object_assign (url_query target1) (url_query (parsedAs result))\<rparr>
                            else target1);
                 as2 = (if matched then pathname target2 else as1);
                 fsPathname' = (if \<not> mw_hasRewrites E \<and> \<not> List.member pages fsPathname
                                then resolveDynamicRoute R fsPathname pages
                                else fsPathname);
                 resolvedHref = (if \<not> List.member pages fsPathname'
                                 then resolveDynamicRoute R
                                        (lp_pathname (normalizeLocalePath U (removeBasePath U (pathname target2)) (mw_locales E)))
                                        pages
                                 else fsPathname')
             in if isDynamicRoute R resolvedHref then
                  (case routeMatcher R resolvedHref as2 of
                     Inl e \<Rightarrow> Inl e
                   | Inr matches \<Rightarrow>
                       Inr (Rewrite (target2\<lparr>url_query := object_assign (url_query target2)
                                                  (case matches of None \<Rightarrow> [] | Some m \<Rightarrow> m)\<rparr>)
                              resolvedHref))
                else Inr (Rewrite target2 resolvedHref))"

text \<open>The part of \<open>getMiddlewareData\<close> that reads the redirect header.\<close>

definition redirect_effect :: "middleware_env \<Rightarrow> response \<Rightarrow> middleware_effect" where
  "redirect_effect E response =
     (let redirectTarget = headers response ''x-nextjs-redirect'' in
      if truthy_str redirectTarget then
        (if startsWith (the redirectTarget) ''/''
         then RedirectInternal (redirect_destination E (the redirectTarget))
                (redirect_destination E (the redirectTarget))
         else RedirectExternal (the redirectTarget))
      else Next)"

definition getMiddlewareData :: "middleware_env \<Rightarrow> string \<Rightarrow> response \<Rightarrow> js_error + middleware_effect" where
  "getMiddlewareData E source response =
     (let rewriteHeader = headers response ''x-nextjs-rewrite'';
          target = rewriteTarget response
      in if truthy_str target then
           (if startsWith (the target) ''/'' then
              (case parseRelativeUrl (mw_urls E) (the target) of
                 Inl e \<Rightarrow> Inl e
               | Inr parsedRewriteTarget \<Rightarrow>
                   let pathnameInfo = getNextPathnameInfo (mw_urls E) (pathname parsedRewriteTarget)
                                        (Some (nextConfig E))
                   in case mw_getPageList E of
                        Inl e \<Rightarrow> Inl e
                      | Inr pages \<Rightarrow>
                          (case mw_getClientBuildManifest E of
                             Inl e \<Rightarrow> Inl e
                           | Inr rewrites \<Rightarrow>
                               rewrite_effect E source rewriteHeader parsedRewriteTarget pathnameInfo
                                 pages rewrites))
            else Inr (RedirectExternal (redirect_destination E source)))
         else Inr (redirect_effect E response))"

subsection \<open>A reference instance of the URL utilities\<close>

text \<open>
  Modelled from the spec: the URL helper modules are not among the sources, and the spec
  describes them only by what they are for ("strip/add a path prefix, strip/add a locale
  prefix"). The instance below is the one of an application with an empty base path, no
  locales and no rewrites, where adding or removing a prefix changes nothing; it parses a
  query string without decoding it. It serves to evaluate the router's functions on
  concrete inputs.
\<close>

definition plain_parsePath :: "string \<Rightarrow> parsed_path" where
  "plain_parsePath path =
     (let before_hash = takeWhile (\<lambda>c. c \<noteq> CHR ''#'') path;
          hash = dropWhile (\<lambda>c. c \<noteq> CHR ''#'') path
      in \<lparr>path_pathname = takeWhile (\<lambda>c. c \<noteq> CHR ''?'') before_hash,
          path_query = dropWhile (\<lambda>c. c \<noteq> CHR ''?'') before_hash,
          path_hash = hash\<rparr>)"

definition plain_query :: "string \<Rightarrow> query" where
  "plain_query search =
     (if length search \<le> 1 then []
      else map (\<lambda>kv. (takeWhile (\<lambda>c. c \<noteq> CHR ''='') kv,
                        QStr (drop 1 (dropWhile (\<lambda>c. c \<noteq> CHR ''='') kv))))
             (split_on CHR ''&'' (drop 1 search)))"

definition plain_parseRelativeUrl :: "string \<Rightarrow> js_error + parsed_url" where
  "plain_parseRelativeUrl url =
     (let p = plain_parsePath url in
      if startsWith url ''/'' \<and> \<not> startsWith url ''//''
      then Inr \<lparr>pathname = path_pathname p, url_query = plain_query (path_query p),
                url_search = path_query p, url_hash = path_hash p\<rparr>
      else Inl (mk_error ''invariant: invalid relative URL''))"

fun plain_search :: "query \<Rightarrow> string list" where
  "plain_search [] = []"
| "plain_search ((k, v) # q) =
     (case v of
        QUndefined \<Rightarrow> plain_search q
      | QStr s \<Rightarrow> (k @ ''='' @ s) # plain_search q
      | QArr xs \<Rightarrow> map (\<lambda>x. k @ ''='' @ x) xs @ plain_search q)"

definition plain_format :: "parsed_url \<Rightarrow> string" where
  "plain_format u =
     pathname u
     @ (if plain_search (url_query u) = [] then [] else ''?'' @ join ''&'' (plain_search (url_query u)))
     @ url_hash u"

definition plain_urls :: url_utils where
  "plain_urls =
     \<lparr>parseRelativeUrl = plain_parseRelativeUrl,
      parsePath = plain_parsePath,
      getNextPathnameInfo = (\<lambda>p cfg.
         \<lparr>info_pathname = p, info_locale = None, info_basePath = None, info_buildId = None,
          info_defaultLocale = None, info_trailingSlash = map_option cfg_trailingSlash cfg\<rparr>),
      formatNextPathnameInfo = info_pathname,
      addLocale = (\<lambda>p l d. p),
      removeLocale = (\<lambda>p l. p),
      addBasePath = (\<lambda>p required. p),
      removeBasePath = (\<lambda>p. p),
      hasBasePath = (\<lambda>p. True),
      normalizeLocalePath = (\<lambda>p locales. \<lparr>lp_pathname = p, lp_detectedLocale = None\<rparr>),
      resolveRewrites = (\<lambda>asPath pages rewrites query resolveHref locales.
         \<lparr>matchedPage = List.member pages asPath,
          parsedAs = \<lparr>pathname = asPath, url_query = query, url_search = [], url_hash = []\<rparr>,
          rr_asPath = asPath,
          rr_resolvedHref = (if List.member pages asPath then Some asPath else None),
          externalDest = False\<rparr>),
      formatWithValidation = plain_format\<rparr>"

definition plain_env :: "string list \<Rightarrow> middleware_env" where
  "plain_env pages =
     \<lparr>mw_routes = ref_utils, mw_urls = plain_urls, mw_basePath = [], mw_locales = None,
      mw_defaultLocale = None, mw_trailingSlash = False, mw_hasRewrites = False,
      mw_getPageList = Inr pages, mw_getClientBuildManifest = Inr []\<rparr>"

definition header_response :: "nat \<Rightarrow> (string \<times> string) list \<Rightarrow> response" where
  "header_response s hs = \<lparr>status = s, headers = map_of hs, body = []\<rparr>"

subsection \<open>Properties of getMiddlewareData\<close>

lemma rewriteTarget_truthy_iff:
  "truthy_str (rewriteTarget response) \<longleftrightarrow>
     truthy_str (headers response ''x-nextjs-rewrite'')
     \<or> truthy_str (headers response ''x-nextjs-matched-path'')
     \<or> (\<exists>m. headers response ''x-matched-path'' = Some m \<and> m \<noteq> []
           \<and> \<not> str_includes m ''__next_data_catchall''
           \<and> \<not> str_includes m ''/_error'' \<and> \<not> str_includes m ''/404'')"
  by (auto simp add: rewriteTarget_def Let_def str_or_def truthy_str_def split: option.splits)

lemma rewriteTarget_ignores_redirect:
  "rewriteTarget (response\<lparr>headers := (headers response)(''x-nextjs-redirect'' := r)\<rparr>) = rewriteTarget response"
  by (simp add: rewriteTarget_def)

lemma rewrite_effect_is_rewrite:
  assumes "rewrite_effect E source rewriteHeader target info pages rewrites = Inr eff"
  shows "\<exists>p h. eff = Rewrite p h"
  using assms
  by (auto simp add: rewrite_effect_def Let_def split: sum.splits if_splits)

lemma getMiddlewareData_rewrite_branch:
  assumes "truthy_str (rewriteTarget response)"
  shows "getMiddlewareData E source (response\<lparr>headers := (headers response)(''x-nextjs-redirect'' := r)\<rparr>)
           = getMiddlewareData E source response"
    and "getMiddlewareData E source response = Inr eff \<Longrightarrow>
           (if startsWith (the (rewriteTarget response)) ''/'' then (\<exists>p h. eff = Rewrite p h)
            else eff = RedirectExternal (redirect_destination E source))"
proof -
  show "getMiddlewareData E source (response\<lparr>headers := (headers response)(''x-nextjs-redirect'' := r)\<rparr>)
           = getMiddlewareData E source response"
    using assms by (simp add: getMiddlewareData_def rewriteTarget_ignores_redirect Let_def)
next
  assume "getMiddlewareData E source response = Inr eff"
  with assms show "if startsWith (the (rewriteTarget response)) ''/'' then (\<exists>p h. eff = Rewrite p h)
            else eff = RedirectExternal (redirect_destination E source)"
    by (auto simp add: getMiddlewareData_def Let_def split: sum.splits if_splits
             dest: rewrite_effect_is_rewrite)
qed

lemma getMiddlewareData_redirect_branch:
  assumes "\<not> truthy_str (rewriteTarget response)"
  shows "getMiddlewareData E source response = Inr (redirect_effect E response)"
  using assms by (simp add: getMiddlewareData_def Let_def)

text \<open>
  Claim C3. The rewrite branch is taken exactly when the rewrite header is there (not
  empty), or \<open>x-nextjs-matched-path\<close> is, or \<open>x-matched-path\<close> is and contains none of the
  catch-all, error and 404 sentinels. When it is taken, the redirect header is not read:
  the result is the same whatever that header holds, and it is a rewrite effect for a
  target starting with a slash and an external redirect otherwise. When it is not taken,
  a redirect header whose target starts with a slash gives the internal redirect to that
  target and any other redirect target the external redirect to it, for every status of
  the response (301, 302, 307 and 308 among them); with neither header the effect is
  \<open>next\<close>.
\<close>

theorem getMiddlewareData_effect_priority:
  "(truthy_str (rewriteTarget response) \<longleftrightarrow>
       truthy_str (headers response ''x-nextjs-rewrite'')
       \<or> truthy_str (headers response ''x-nextjs-matched-path'')
       \<or> (\<exists>m. headers response ''x-matched-path'' = Some m \<and> m \<noteq> []
             \<and> \<not> str_includes m ''__next_data_catchall''
             \<and> \<not> str_includes m ''/_error'' \<and> \<not> str_includes m ''/404''))
   \<and> (truthy_str (rewriteTarget response) \<longrightarrow>
         getMiddlewareData E source (response\<lparr>headers := (headers response)(''x-nextjs-redirect'' := r)\<rparr>)
           = getMiddlewareData E source response
         \<and> (\<forall>eff. getMiddlewareData E source response = Inr eff \<longrightarrow>
               (if startsWith (the (rewriteTarget response)) ''/'' then (\<exists>p h. eff = Rewrite p h)
                else eff = RedirectExternal (redirect_destination E source))))
   \<and> (\<forall>t. \<not> truthy_str (rewriteTarget response) \<and> headers response ''x-nextjs-redirect'' = Some t \<and> t \<noteq> [] \<longrightarrow>
         getMiddlewareData E source response
           = Inr (if startsWith t ''/''
                  then RedirectInternal (redirect_destination E t) (redirect_destination E t)
                  else RedirectExternal t))
   \<and> (\<not> truthy_str (rewriteTarget response) \<and> \<not> truthy_str (headers response ''x-nextjs-redirect'') \<longrightarrow>
         getMiddlewareData E source response = Inr Next)"
proof (intro conjI allI impI)
  show "truthy_str (rewriteTarget response) \<longleftrightarrow>
       truthy_str (headers response ''x-nextjs-rewrite'')
       \<or> truthy_str (headers response ''x-nextjs-matched-path'')
       \<or> (\<exists>m. headers response ''x-matched-path'' = Some m \<and> m \<noteq> []
             \<and> \<not> str_includes m ''__next_data_catchall''
             \<and> \<not> str_includes m ''/_error'' \<and> \<not> str_includes m ''/404'')"
    by (rule rewriteTarget_truthy_iff)
next
  assume "truthy_str (rewriteTarget response)"
  then show "getMiddlewareData E source (response\<lparr>headers := (headers response)(''x-nextjs-redirect'' := r)\<rparr>)
           = getMiddlewareData E source response"
    by (rule getMiddlewareData_rewrite_branch(1))
next
  fix eff
  assume "truthy_str (rewriteTarget response)" and "getMiddlewareData E source response = Inr eff"
  then show "if startsWith (the (rewriteTarget response)) ''/'' then (\<exists>p h. eff = Rewrite p h)
                else eff = RedirectExternal (redirect_destination E source)"
    by (rule getMiddlewareData_rewrite_branch(2))
next
  fix t
  assume a: "\<not> truthy_str (rewriteTarget response) \<and> headers response ''x-nextjs-redirect'' = Some t \<and> t \<noteq> []"
  then have "getMiddlewareData E source response = Inr (redirect_effect E response)"
    by (simp add: getMiddlewareData_redirect_branch)
  with a show "getMiddlewareData E source response
           = Inr (if startsWith t ''/''
                  then RedirectInternal (redirect_destination E t) (redirect_destination E t)
                  else RedirectExternal t)"
    by (simp add: redirect_effect_def Let_def truthy_str_def)
next
  assume a: "\<not> truthy_str (rewriteTarget response) \<and> \<not> truthy_str (headers response ''x-nextjs-redirect'')"
  then have "getMiddlewareData E source response = Inr (redirect_effect E response)"
    by (simp add: getMiddlewareData_redirect_branch)
  with a show "getMiddlewareData E source response = Inr Next"
    by (simp add: redirect_effect_def Let_def)
qed

text \<open>
  With the pages \<open>/about\<close> and \<open>/blog/[slug]\<close>: a response with a rewrite header gives the
  rewrite effect also when a redirect header is added to it; a 307 with a redirect to
  \<open>/other\<close> and the matched path \<open>/404\<close> gives the internal redirect; a redirect to another
  site gives the external one; no header gives \<open>next\<close>.
\<close>

theorem getMiddlewareData_effect_priority_witness:
  "getMiddlewareData (plain_env [''/about'', ''/blog/[slug]'']) ''/_next/data/b/old.json''
     ((header_response 200 [(''x-nextjs-rewrite'', ''/blog/hi'')])
        \<lparr>headers := (headers (header_response 200 [(''x-nextjs-rewrite'', ''/blog/hi'')]))
                       (''x-nextjs-redirect'' := Some ''/other'')\<rparr>)
     = Inr (Rewrite \<lparr>pathname = ''/blog/hi'', url_query = [(''slug'', QStr ''hi'')],
                     url_search = [], url_hash = []\<rparr> ''/blog/[slug]'')
   \<and> getMiddlewareData (plain_env [''/about'', ''/blog/[slug]'']) ''/_next/data/b/old.json''
       (header_response 307 [(''x-matched-path'', ''/404''), (''x-nextjs-redirect'', ''/other'')])
     = Inr (RedirectInternal ''/other'' ''/other'')
   \<and> getMiddlewareData (plain_env [''/about'', ''/blog/[slug]'']) ''/_next/data/b/old.json''
       (header_response 308 [(''x-nextjs-redirect'', ''https://e.com/a'')])
     = Inr (RedirectExternal ''https://e.com/a'')
   \<and> getMiddlewareData (plain_env [''/about'', ''/blog/[slug]'']) ''/_next/data/b/old.json''
       (header_response 200 [])
     = Inr Next"
proof -
  let ?E = "plain_env [''/about'', ''/blog/[slug]'']"
  let ?src = "''/_next/data/b/old.json''"
  let ?rw = "header_response 200 [(''x-nextjs-rewrite'', ''/blog/hi'')]"
  let ?ri = "header_response 307 [(''x-matched-path'', ''/404''), (''x-nextjs-redirect'', ''/other'')]"
  let ?re = "header_response 308 [(''x-nextjs-redirect'', ''https://e.com/a'')]"
  let ?no = "header_response 200 []"
  have h1: "truthy_str (rewriteTarget ?rw)" by code_simp
  have e1: "getMiddlewareData ?E ?src ?rw
      = Inr (Rewrite \<lparr>pathname = ''/blog/hi'', url_query = [(''slug'', QStr ''hi'')],
                      url_search = [], url_hash = []\<rparr> ''/blog/[slug]'')"
    by code_simp
  note t1 = conjunct1 [OF mp [OF conjunct1 [OF conjunct2
      [OF getMiddlewareData_effect_priority [of ?rw ?E ?src "Some ''/other''"]]] h1]]
  have r1: "getMiddlewareData ?E ?src (?rw\<lparr>headers := (headers ?rw)(''x-nextjs-redirect'' := Some ''/other'')\<rparr>)
      = Inr (Rewrite \<lparr>pathname = ''/blog/hi'', url_query = [(''slug'', QStr ''hi'')],
                      url_search = [], url_hash = []\<rparr> ''/blog/[slug]'')"
    by (rule trans [OF t1 e1])
  have h2: "\<not> truthy_str (rewriteTarget ?ri) \<and> headers ?ri ''x-nextjs-redirect'' = Some ''/other'' \<and> ''/other'' \<noteq> []"
    by code_simp
  have e2: "Inr (if startsWith ''/other'' ''/''
                  then RedirectInternal (redirect_destination ?E ''/other'') (redirect_destination ?E ''/other'')
                  else RedirectExternal ''/other'') = (Inr (RedirectInternal ''/other'' ''/other'') :: js_error + middleware_effect)"
    by code_simp
  note t2 = mp [OF spec [OF conjunct1 [OF conjunct2 [OF conjunct2
      [OF getMiddlewareData_effect_priority [of ?ri ?E ?src None]]]], of "''/other''"] h2]
  have r2: "getMiddlewareData ?E ?src ?ri = Inr (RedirectInternal ''/other'' ''/other'')"
    by (rule trans [OF t2 e2])
  have h3: "\<not> truthy_str (rewriteTarget ?re) \<and> headers ?re ''x-nextjs-redirect'' = Some ''https://e.com/a''
      \<and> ''https://e.com/a'' \<noteq> []"
    by code_simp
  have e3: "Inr (if startsWith ''https://e.com/a'' ''/''
                  then RedirectInternal (redirect_destination ?E ''https://e.com/a'') (redirect_destination ?E ''https://e.com/a'')
                  else RedirectExternal ''https://e.com/a'') = (Inr (RedirectExternal ''https://e.com/a'') :: js_error + middleware_effect)"
    by code_simp
  note t3 = mp [OF spec [OF conjunct1 [OF conjunct2 [OF conjunct2
      [OF getMiddlewareData_effect_priority [of ?re ?E ?src None]]]], of "''https://e.com/a''"] h3]
  have r3: "getMiddlewareData ?E ?src ?re = Inr (RedirectExternal ''https://e.com/a'')"
    by (rule trans [OF t3 e3])
  have h4: "\<not> truthy_str (rewriteTarget ?no) \<and> \<not> truthy_str (headers ?no ''x-nextjs-redirect'')"
    by code_simp
  have r4: "getMiddlewareData ?E ?src ?no = Inr Next"
    by (rule mp [OF conjunct2 [OF conjunct2 [OF conjunct2
      [OF getMiddlewareData_effect_priority [of ?no ?E ?src None]]]] h4])
  from r1 r2 r3 r4 show ?thesis by (intro conjI)
qed

section \<open>The Router class\<close>

subsection \<open>Data\<close>

text \<open>
  JSON values, as \<open>JSON.parse\<close> returns them and as page props hold them. The symbol
  \<open>SSG_DATA_NOT_FOUND\<close> is a value of its own, different from every parsed value.
\<close>

datatype json =
    JNull
  | JBool bool
  | JNum int
  | JStr string
  | JArr "json list"
  | JObj "(string \<times> json) list"
  | SSG_DATA_NOT_FOUND

text \<open>
  \<open>v?.k\<close> and \<open>v.k\<close> on a value that is not \<open>undefined\<close>: the property of an object,
  \<open>undefined\<close> (\<open>None\<close>) for anything else; and the truthiness of a value that may be
  \<open>undefined\<close>.
\<close>

definition json_get :: "json option \<Rightarrow> string \<Rightarrow> json option" where
  "json_get v k = (case v of Some (JObj kvs) \<Rightarrow> map_of kvs k | _ \<Rightarrow> None)"

fun json_truthy :: "json option \<Rightarrow> bool" where
  "json_truthy None = False"
| "json_truthy (Some JNull) = False"
| "json_truthy (Some (JBool b)) = b"
| "json_truthy (Some (JNum n)) = (n \<noteq> 0)"
| "json_truthy (Some (JStr s)) = (s \<noteq> [])"
| "json_truthy (Some _) = True"

datatype history_method = PushState | ReplaceState

text \<open>A \<open>locale\<close> option is a string, \<open>false\<close> or \<open>undefined\<close>.\<close>

datatype locale_option = LocaleUndefined | LocaleFalse | Locale string

record transition_options =
  to_shallow :: "bool option"
  to_locale :: locale_option
  to_scroll :: "bool option"
  to_skipClientCache :: "bool option"
  to_h :: "nat option"
  to_shouldResolveHref :: "bool option"

text \<open>
  \<open>HistoryState\<close>: \<open>null\<close>, an entry of the app router (\<open>__NA\<close>), an entry without the
  marker \<open>__N\<close> and without \<open>__NA\<close>, or an entry of this router: \<open>__N: true\<close> with url, as,
  options and key.
\<close>

record next_history_state =
  hs_url :: string
  hs_as :: string
  hs_options :: transition_options
  hs_key :: string

datatype history_state =
    StateNull
  | StateAppRouter
  | StateUnmarked
  | StateNext next_history_state

type_synonym scroll = "int \<times> int"

text \<open>
  The browser: the history stack around its current entry (each entry a state and the
  URL shown for it, relative to the origin), the calls of \<open>location.reload()\<close>, the URLs
  assigned to \<open>location.href\<close>, the session storage, the scroll offset, the calls that
  scroll the page and the \<open>lang\<close> of the document.
\<close>

datatype scroll_call = ScrollTo int int | ScrollToHash string

record browser =
  history_back :: "(history_state \<times> string) list"
  history_current :: "history_state \<times> string"
  history_forward :: "(history_state \<times> string) list"
  reloads :: nat
  href_assigned :: "string list"
  sessionStorage :: "(string \<times> string) list"
  storage_throws :: bool
  pageOffset :: scroll
  scroll_calls :: "scroll_call list"
  document_lang :: "string option"

text \<open>\<open>getURL()\<close>: the current URL without the origin.\<close>

definition getURL :: "browser \<Rightarrow> string" where
  "getURL b = snd (history_current b)"

text \<open>
  \<open>window.history[method](state, '', as)\<close>, for an \<open>as\<close> that is relative to the origin:
  \<open>pushState\<close> adds an entry after the current one and drops the forward entries,
  \<open>replaceState\<close> overwrites the current entry.
\<close>

fun history_write :: "history_method \<Rightarrow> history_state \<Rightarrow> string \<Rightarrow> browser \<Rightarrow> browser" where
  "history_write PushState st url b =
     b\<lparr>history_back := history_current b # history_back b,
       history_current := (st, url),
       history_forward := []\<rparr>"
| "history_write ReplaceState st url b = b\<lparr>history_current := (st, url)\<rparr>"

definition history_length :: "browser \<Rightarrow> nat" where
  "history_length b = length (history_back b) + 1 + length (history_forward b)"

record router_state =
  st_route :: string
  st_pathname :: string
  st_query :: query
  st_asPath :: string
  st_locale :: "string option"
  st_isFallback :: bool
  st_isPreview :: bool

text \<open>
  \<open>PrivateRouteInfo\<close>: the component (by name), the data flags, the props, the carried
  error, and the route, resolved \<open>as\<close> and query that \<open>getRouteInfo\<close> records.
\<close>

record route_info =
  ri_Component :: string
  ri_initial :: bool
  ri_SSG :: bool
  ri_SSP :: bool
  ri_RSC :: bool
  ri_props :: "json option"
  ri_err :: "js_error option"
  ri_error :: "js_error option"
  ri_route :: "string option"
  ri_resolvedAs :: "string option"
  ri_query :: "query option"


datatype router_event =
    RouteChangeStart string bool
  | RouteChangeComplete string bool
  | RouteChangeError js_error string bool
  | BeforeHistoryChange string bool
  | HashChangeStart string bool
  | HashChangeComplete string bool

text \<open>
  The router. \<open>clc\<close> holds the live cancel function, named by the number of the closure
  that made it; \<open>cancel_flags\<close> lists the closures whose \<open>cancelled\<close> variable is true.
  \<open>events\<close> are the events emitted so far and \<open>published\<close> the calls of the subscription,
  each with the route info (\<open>undefined\<close> when the component cache has none) and the scroll
  instruction it was given. \<open>key_draws\<close> counts
  the calls of \<open>createKey\<close>.
\<close>

record router =
  state :: router_state
  key :: string
  shallow_flag :: "bool option"
  clc :: "nat option"
  cancel_flags :: "nat list"
  next_closure :: nat
  inFlightRoute :: "string option"
  isSsr :: bool
  isReady :: bool
  isFirstPopStateEvent :: bool
  components :: "(string \<times> route_info) list"
  events :: "router_event list"
  published :: "(route_info option \<times> scroll option) list"
  key_draws :: nat
  win :: browser

text \<open>
  What the router is given and what the build fixes: the helpers, the locales, the build
  flags, the callback of \<open>beforePopState\<close>, the random source behind \<open>createKey\<close> (the
  \<open>n\<close>-th call returns \<open>env_random n\<close>), how the subscription settles, the comparison of
  router states, \<open>JSON.stringify\<close> and \<open>JSON.parse\<close> on scroll offsets, and whether the
  page props of \<open>__NEXT_DATA__\<close> have the status code 500.
\<close>

datatype node_env = Production | Development | Test

record router_env =
  env_urls :: url_utils
  env_routes :: route_utils
  env_locales :: "string list option"
  env_defaultLocale :: "string option"
  env_node :: node_env
  env_i18n :: bool
  env_scrollRestoration :: bool
  env_manualScrollRestoration :: bool
  env_bps :: "(next_history_state \<Rightarrow> bool) option"
  env_random :: "nat \<Rightarrow> string"
  env_sub :: "route_info option \<Rightarrow> scroll option \<Rightarrow> js_error option"
  env_compareRouterStates :: "router_state \<Rightarrow> router_state \<Rightarrow> bool"
  env_stringifyScroll :: "scroll \<Rightarrow> string"
  env_parseScroll :: "string option \<Rightarrow> js_error + scroll option"
  env_initialStatus500 :: bool

subsection \<open>createKey, changeState and set\<close>

definition createKey :: "router_env \<Rightarrow> router \<Rightarrow> string \<times> router" where
  "createKey E r = (env_random E (key_draws r), r\<lparr>key_draws := Suc (key_draws r)\<rparr>)"

text \<open>
  \<open>changeState\<close>, in a browser that has \<open>window.history\<close> and both of its methods (the
  checks for them outside production only log and return).
\<close>

definition changeState ::
  "router_env \<Rightarrow> history_method \<Rightarrow> string \<Rightarrow> string \<Rightarrow> transition_options \<Rightarrow> router \<Rightarrow> router" where
  "changeState E method url as options r =
     (if method \<noteq> PushState \<or> getURL (win r) \<noteq> as then
        let r1 = r\<lparr>shallow_flag := to_shallow options\<rparr>;
            (k, r2) = (if method \<noteq> PushState then (key r1, r1) else createKey E r1);
            r3 = r2\<lparr>key := k\<rparr>
        in r3\<lparr>win := history_write method
                        (StateNext \<lparr>hs_url = url, hs_as = as, hs_options = options, hs_key = k\<rparr>)
                        as (win r3)\<rparr>
      else r)"

text \<open>
  \<open>set\<close>: the state is assigned and the subscription is called; the promise it returns
  settles as the subscription does.
\<close>

definition set_state ::
  "router_env \<Rightarrow> router_state \<Rightarrow> route_info option \<Rightarrow> scroll option \<Rightarrow> router \<Rightarrow> js_error option \<times> router" where
  "set_state E st data resetScroll r =
     (env_sub E data resetScroll,
      r\<lparr>state := st, published := published r @ [(data, resetScroll)]\<rparr>)"

subsection \<open>onPopState\<close>

text \<open>
  \<open>onPopState\<close> ends by calling \<open>change\<close>; the model returns that call instead of making
  it, or says which of the earlier returns was taken.
\<close>

record change_call =
  cc_method :: history_method
  cc_url :: string
  cc_as :: string
  cc_options :: transition_options
  cc_forcedScroll :: "scroll option"


definition no_options :: transition_options where
  "no_options = \<lparr>to_shallow = None, to_locale = LocaleUndefined, to_scroll = None,
                  to_skipClientCache = None, to_h = None, to_shouldResolveHref = None\<rparr>"



text \<open>
  Scroll restoration, when it is compiled in, handled manually and the entry's key is not
  the current one: the current offset is stored under the current key (a failure to store
  is swallowed) and the offset stored under the entry's key is read back, the origin
  standing in when it cannot be parsed.
\<close>

definition restore_scroll :: "router_env \<Rightarrow> string \<Rightarrow> router \<Rightarrow> scroll option \<times> router" where
  "restore_scroll E k r =
     (if env_scrollRestoration E \<and> env_manualScrollRestoration E \<and> key r \<noteq> k then
        let b = win r;
            b' = (if storage_throws b then b
                  else b\<lparr>sessionStorage := (''__next_scroll_'' @ key r, env_stringifyScroll E (pageOffset b))
                                            # sessionStorage b\<rparr>);
            forcedScroll = (case env_parseScroll E (map_of (sessionStorage b') (''__next_scroll_'' @ k)) of
                              Inl e \<Rightarrow> Some (0, 0)
                            | Inr sc \<Rightarrow> sc)
        in (forcedScroll, r\<lparr>win := b'\<rparr>)
      else (None, r))"


subsection \<open>A sample router\<close>

text \<open>
  A router in an application without base path and locales, showing the page \<open>/about\<close>,
  with one history entry that it wrote itself; the random source returns \<open>k0\<close>, \<open>k1\<close>
  and so on.
\<close>

definition sample_keys :: "nat \<Rightarrow> string" where
  "sample_keys n = CHR ''k'' # replicate n CHR ''x''"

definition sample_env :: router_env where
  "sample_env =
     \<lparr>env_urls = plain_urls, env_routes = ref_utils, env_locales = None, env_defaultLocale = None,
      env_node = Production, env_i18n = False, env_scrollRestoration = False,
      env_manualScrollRestoration = False, env_bps = None, env_random = sample_keys,
      env_sub = (\<lambda>data resetScroll. None),
      env_compareRouterStates = (\<lambda>a b. a = b),
      env_stringifyScroll = (\<lambda>sc. []),
      env_parseScroll = (\<lambda>v. Inr None),
      env_initialStatus500 = False\<rparr>"

definition sample_info :: "string \<Rightarrow> route_info" where
  "sample_info c =
     \<lparr>ri_Component = c, ri_initial = False, ri_SSG = False, ri_SSP = False, ri_RSC = False,
      ri_props = Some (JObj []), ri_err = None, ri_error = None, ri_route = None,
      ri_resolvedAs = None, ri_query = None\<rparr>"

definition sample_state :: "string \<Rightarrow> router_state" where
  "sample_state p =
     \<lparr>st_route = p, st_pathname = p, st_query = [], st_asPath = p, st_locale = None,
      st_isFallback = False, st_isPreview = False\<rparr>"

definition sample_browser :: "string \<Rightarrow> browser" where
  "sample_browser p =
     \<lparr>history_back = [],
      history_current = (StateNext \<lparr>hs_url = p, hs_as = p, hs_options = no_options, hs_key = ''init''\<rparr>, p),
      history_forward = [], reloads = 0, href_assigned = [], sessionStorage = [],
      storage_throws = False, pageOffset = (0, 0), scroll_calls = [], document_lang = None\<rparr>"

definition sample_router :: "string \<Rightarrow> router" where
  "sample_router p =
     \<lparr>state = sample_state p, key = ''init'', shallow_flag = None, clc = None, cancel_flags = [],
      next_closure = 0, inFlightRoute = None, isSsr = False, isReady = True,
      isFirstPopStateEvent = False,
      components = [(p, sample_info p), (''/_app'', sample_info ''App'')],
      events = [], published = [], key_draws = 0, win = sample_browser p\<rparr>"

subsection \<open>History entries and external history events\<close>


lemma changeState_same_url:
  assumes "method = PushState" and "getURL (win r) = as"
  shows "changeState E method url as options r = r"
  using assms by (simp add: changeState_def)


lemma restore_scroll_reloads:
  "reloads (win (snd (restore_scroll E k r))) = reloads (win r)"
  by (simp add: restore_scroll_def Let_def)





subsection \<open>The hash-only change, the history method and the commit of change\<close>

text \<open>\<open>onlyAHashChange\<close> and \<open>urlIsNew\<close>, which compare a target with the current \<open>asPath\<close>.\<close>

definition hash_parts :: "string \<Rightarrow> string \<times> string option" where
  "hash_parts s =
     (case split_on CHR ''#'' s of
        [] \<Rightarrow> ([], None)
      | [a] \<Rightarrow> (a, None)
      | a # h # _ \<Rightarrow> (a, Some h))"

definition onlyAHashChange :: "router \<Rightarrow> string \<Rightarrow> bool" where
  "onlyAHashChange r as =
     (if st_asPath (state r) = [] then False
      else
        let (oldUrlNoHash, oldHash) = hash_parts (st_asPath (state r));
            (newUrlNoHash, newHash) = hash_parts as
        in if truthy_str newHash \<and> oldUrlNoHash = newUrlNoHash \<and> oldHash = newHash then True
           else if oldUrlNoHash \<noteq> newUrlNoHash then False
           else oldHash \<noteq> newHash)"

definition urlIsNew :: "router \<Rightarrow> string \<Rightarrow> bool" where
  "urlIsNew r asPath = (st_asPath (state r) \<noteq> asPath)"

text \<open>The internal option \<open>_h\<close> is truthy when it is a number other than zero.\<close>

definition isQueryUpdating :: "transition_options \<Rightarrow> bool" where
  "isQueryUpdating options = (case to_h options of None \<Rightarrow> False | Some n \<Rightarrow> n \<noteq> 0)"

datatype change_outcome =
    Resolved bool
  | Rejected js_error
  | NeverSettles
  | Recurse change_call

definition emit :: "router_event \<Rightarrow> router \<Rightarrow> router" where
  "emit ev r = r\<lparr>events := events r @ [ev]\<rparr>"

definition scrollToHash :: "string \<Rightarrow> router \<Rightarrow> router" where
  "scrollToHash as r = r\<lparr>win := (win r)\<lparr>scroll_calls := scroll_calls (win r) @ [ScrollToHash as]\<rparr>\<rparr>"

text \<open>
  The condition under which \<open>change\<close> treats a navigation as a change of the hash only, and
  the body of that branch: the history is written with the method the caller gave, the
  current view is published again under the new \<open>asPath\<close>, and the navigation resolves to
  true.
\<close>

definition is_hash_only :: "router \<Rightarrow> transition_options \<Rightarrow> string \<Rightarrow> bool \<Rightarrow> bool" where
  "is_hash_only r options cleanedAs localeChange =
     (\<not> isQueryUpdating options \<and> onlyAHashChange r cleanedAs \<and> \<not> localeChange)"

definition change_hash_only ::
  "router_env \<Rightarrow> history_method \<Rightarrow> string \<Rightarrow> string \<Rightarrow> string \<Rightarrow> transition_options
     \<Rightarrow> router_state \<Rightarrow> router \<Rightarrow> change_outcome \<times> router" where
  "change_hash_only E method url as cleanedAs options nextState r =
     (let shallow = (case to_shallow options of None \<Rightarrow> False | Some b \<Rightarrow> b);
          scroll = (case to_scroll options of None \<Rightarrow> True | Some b \<Rightarrow> b);
          nextState' = nextState\<lparr>st_asPath := cleanedAs\<rparr>;
          r1 = emit (HashChangeStart as shallow) r;
          r2 = changeState E method url as (options\<lparr>to_scroll := Some False\<rparr>) r1;
          r3 = (if scroll then scrollToHash cleanedAs r2 else r2);
          (settled, r4) = set_state E nextState' (map_of (components r3) (st_route nextState')) None r3
      in case settled of
           Some err \<Rightarrow>
             (Rejected err,
              if cancelled err then emit (RouteChangeError err cleanedAs shallow) r4 else r4)
         | None \<Rightarrow> (Resolved True, emit (HashChangeComplete as shallow) r4))"

text \<open>
  After the page list has loaded: a navigation to the current \<open>asPath\<close> without a change of
  locale always uses \<open>replaceState\<close>.
\<close>

definition change_history_method :: "router \<Rightarrow> history_method \<Rightarrow> string \<Rightarrow> bool \<Rightarrow> history_method" where
  "change_history_method r method cleanedAs localeChange =
     (if \<not> urlIsNew r cleanedAs \<and> \<not> localeChange then ReplaceState else method)"

text \<open>\<open>/#.+$/.test(as)\<close>: there is a hash mark with something after it.\<close>

definition has_hash :: "string \<Rightarrow> bool" where
  "has_hash as = (case dropWhile (\<lambda>c. c \<noteq> CHR ''#'') as of [] \<Rightarrow> False | c # rest \<Rightarrow> rest \<noteq> [])"

text \<open>\<open>props.pageProps.statusCode = 500\<close> on props whose \<open>pageProps\<close> is an object.\<close>

fun json_set :: "string \<Rightarrow> json \<Rightarrow> (string \<times> json) list \<Rightarrow> (string \<times> json) list" where
  "json_set k v [] = [(k, v)]"
| "json_set k v ((k', v') # kvs) = (if k = k' then (k, v) # kvs else (k', v') # json_set k v kvs)"

definition set_statusCode_500 :: "json option \<Rightarrow> json option" where
  "set_statusCode_500 props =
     (case props of
        Some (JObj kvs) \<Rightarrow>
          (case map_of kvs ''pageProps'' of
             Some (JObj pp) \<Rightarrow> Some (JObj (json_set ''pageProps'' (JObj (json_set ''statusCode'' (JNum 500) pp)) kvs))
           | _ \<Rightarrow> props)
      | _ \<Rightarrow> props)"

text \<open>
  What \<open>change\<close> has computed when it reaches the commit: the history method, the url and
  as, the options, the forced scroll of a history event, the next state, the route,
  pathname and query, the cleaned as, the route info first resolved (whose props and
  error \<open>change\<close> keeps in variables of their own), the route info of the not-found view
  when that has replaced it, and the two flags taken at the start.
\<close>

record commit_args =
  ca_method :: history_method
  ca_url :: string
  ca_as :: string
  ca_options :: transition_options
  ca_forcedScroll :: "scroll option"
  ca_nextState :: router_state
  ca_route :: string
  ca_pathname :: string
  ca_query :: query
  ca_cleanedAs :: string
  ca_firstInfo :: route_info
  ca_notFoundInfo :: "route_info option"
  ca_readyStateChange :: bool
  ca_localeChange :: bool

definition ca_routeInfo :: "commit_args \<Rightarrow> route_info" where
  "ca_routeInfo a = (case ca_notFoundInfo a of None \<Rightarrow> ca_firstInfo a | Some i \<Rightarrow> i)"

definition ca_props :: "commit_args \<Rightarrow> json option" where
  "ca_props a = ri_props (ca_firstInfo a)"

definition ca_error :: "commit_args \<Rightarrow> js_error option" where
  "ca_error a = ri_error (ca_firstInfo a)"

definition upcomingRouterState :: "commit_args \<Rightarrow> router_state" where
  "upcomingRouterState a =
     (ca_nextState a)\<lparr>st_route := ca_route a, st_pathname := ca_pathname a, st_query := ca_query a,
                       st_asPath := ca_cleanedAs a, st_isFallback := False\<rparr>"

definition shouldScroll :: "commit_args \<Rightarrow> bool" where
  "shouldScroll a =
     (let isValidShallowRoute =
            (to_shallow (ca_options a) = Some True
             \<and> st_route (ca_nextState a)
                 = (case ri_route (ca_routeInfo a) of None \<Rightarrow> ca_route a | Some rt \<Rightarrow> rt))
      in case to_scroll (ca_options a) of
           Some b \<Rightarrow> b
         | None \<Rightarrow> \<not> isQueryUpdating (ca_options a) \<and> \<not> isValidShallowRoute)"

definition upcomingScrollState :: "commit_args \<Rightarrow> scroll option" where
  "upcomingScrollState a =
     (case ca_forcedScroll a of
        Some sc \<Rightarrow> Some sc
      | None \<Rightarrow> if shouldScroll a then Some (0, 0) else None)"

definition canSkipUpdating :: "router_env \<Rightarrow> commit_args \<Rightarrow> router \<Rightarrow> bool" where
  "canSkipUpdating E a r =
     (isQueryUpdating (ca_options a)
      \<and> upcomingScrollState a = None
      \<and> \<not> ca_readyStateChange a
      \<and> \<not> ca_localeChange a
      \<and> env_compareRouterStates E (upcomingRouterState a) (state r))"

text \<open>
  The commit: from \<open>beforeHistoryChange\<close> to \<open>return true\<close>. The comparison of the states
  reads the router's state after \<open>changeState\<close>, which does not touch it. The status
  code 500 is written into the props of the route info first resolved, so it shows in
  what is published when that route info is the one published.
\<close>

definition commit_routeInfo :: "router_env \<Rightarrow> commit_args \<Rightarrow> route_info" where
  "commit_routeInfo E a =
     (let fix500 = (isQueryUpdating (ca_options a) \<and> ca_pathname a = ''/_error''
                    \<and> env_initialStatus500 E
                    \<and> json_truthy (json_get (ca_props a) ''pageProps''))
      in if fix500 \<and> ca_notFoundInfo a = None
         then (ca_firstInfo a)\<lparr>ri_props := set_statusCode_500 (ca_props a)\<rparr>
         else ca_routeInfo a)"

text \<open>What runs when the promise of \<open>set\<close> has settled (\<open>None\<close>: fulfilled).\<close>

definition commit_settled ::
  "router_env \<Rightarrow> commit_args \<Rightarrow> js_error option \<Rightarrow> router \<Rightarrow> change_outcome \<times> router" where
  "commit_settled E a settled r3 =
     (let shallow = (case to_shallow (ca_options a) of None \<Rightarrow> False | Some b \<Rightarrow> b);
          queryUpdating = isQueryUpdating (ca_options a)
      in case (case settled of
                 None \<Rightarrow> Inr (ca_error a)
               | Some e \<Rightarrow> if cancelled e
                           then Inr (case ca_error a of None \<Rightarrow> Some e | Some e0 \<Rightarrow> Some e0)
                           else Inl e) of
           Inl e \<Rightarrow> (Rejected e, r3)
         | Inr (Some error) \<Rightarrow>
             (Rejected error,
              if queryUpdating then r3 else emit (RouteChangeError error (ca_cleanedAs a) shallow) r3)
         | Inr None \<Rightarrow>
             let r4 = (if env_i18n E
                       then (case st_locale (ca_nextState a) of
                               None \<Rightarrow> r3
                             | Some l \<Rightarrow> if l = [] then r3
                                         else r3\<lparr>win := (win r3)\<lparr>document_lang := Some l\<rparr>\<rparr>)
                       else r3);
                 r5 = (if queryUpdating then r4 else emit (RouteChangeComplete (ca_as a) shallow) r4);
                 r6 = (if shouldScroll a \<and> has_hash (ca_as a) then scrollToHash (ca_as a) r5 else r5)
             in (Resolved True, r6))"

definition change_commit :: "router_env \<Rightarrow> commit_args \<Rightarrow> router \<Rightarrow> change_outcome \<times> router" where
  "change_commit E a r =
     (let shallow = (case to_shallow (ca_options a) of None \<Rightarrow> False | Some b \<Rightarrow> b);
          r1 = emit (BeforeHistoryChange (ca_as a) shallow) r;
          r2 = changeState E (ca_method a) (ca_url a) (ca_as a) (ca_options a) r1
      in if canSkipUpdating E a r2 then (Resolved True, r2)
         else
           let (settled, r3) = set_state E (upcomingRouterState a) (Some (commit_routeInfo E a))
                                 (upcomingScrollState a) r2
           in commit_settled E a settled r3)"

subsection \<open>The publish step of a query update\<close>





text \<open>
  A commit from the page \<open>cur\<close> to the page \<open>target\<close> of the sample application.
\<close>

definition sample_commit :: "history_method \<Rightarrow> string \<Rightarrow> string \<Rightarrow> transition_options \<Rightarrow> commit_args" where
  "sample_commit method cur target options =
     \<lparr>ca_method = method, ca_url = target, ca_as = target, ca_options = options,
      ca_forcedScroll = None, ca_nextState = sample_state cur, ca_route = target,
      ca_pathname = target, ca_query = [], ca_cleanedAs = target,
      ca_firstInfo = sample_info target, ca_notFoundInfo = None,
      ca_readyStateChange = False, ca_localeChange = False\<rparr>"




lemma commit_settled_keeps:
  "state (snd (commit_settled E a settled r)) = state r
   \<and> published (snd (commit_settled E a settled r)) = published r
   \<and> key (snd (commit_settled E a settled r)) = key r
   \<and> history_current (win (snd (commit_settled E a settled r))) = history_current (win r)
   \<and> history_back (win (snd (commit_settled E a settled r))) = history_back (win r)
   \<and> history_forward (win (snd (commit_settled E a settled r))) = history_forward (win r)"
  by (simp add: commit_settled_def Let_def emit_def scrollToHash_def split: option.splits sum.splits)


subsection \<open>The history method of a navigation to the current URL\<close>

lemma changeState_replace_history:
  "history_length (win (changeState E ReplaceState url as options r)) = history_length (win r)
   \<and> key (changeState E ReplaceState url as options r) = key r
   \<and> history_back (win (changeState E ReplaceState url as options r)) = history_back (win r)
   \<and> history_forward (win (changeState E ReplaceState url as options r)) = history_forward (win r)"
  by (simp add: changeState_def Let_def history_length_def)

lemma changeState_push_history:
  assumes "getURL (win r) \<noteq> as"
  shows "history_length (win (changeState E PushState url as options r)) = Suc (length (history_back (win r)) + 1)
   \<and> key (changeState E PushState url as options r) = env_random E (key_draws r)
   \<and> history_back (win (changeState E PushState url as options r)) = history_current (win r) # history_back (win r)"
  using assms by (simp add: changeState_def createKey_def Let_def history_length_def)

lemma set_state_history:
  "win (snd (set_state E st data sc r)) = win r \<and> key (snd (set_state E st data sc r)) = key r"
  by (simp add: set_state_def)

lemma change_commit_history:
  "history_back (win (snd (change_commit E a r)))
     = history_back (win (changeState E (ca_method a) (ca_url a) (ca_as a) (ca_options a) r))
   \<and> history_current (win (snd (change_commit E a r)))
     = history_current (win (changeState E (ca_method a) (ca_url a) (ca_as a) (ca_options a) r))
   \<and> history_forward (win (snd (change_commit E a r)))
     = history_forward (win (changeState E (ca_method a) (ca_url a) (ca_as a) (ca_options a) r))
   \<and> key (snd (change_commit E a r))
     = key (changeState E (ca_method a) (ca_url a) (ca_as a) (ca_options a) r)"
proof -
  let ?sh = "case to_shallow (ca_options a) of None \<Rightarrow> False | Some b \<Rightarrow> b"
  let ?r1 = "emit (BeforeHistoryChange (ca_as a) ?sh) r"
  have e: "win (changeState E (ca_method a) (ca_url a) (ca_as a) (ca_options a) ?r1)
             = win (changeState E (ca_method a) (ca_url a) (ca_as a) (ca_options a) r)
         \<and> key (changeState E (ca_method a) (ca_url a) (ca_as a) (ca_options a) ?r1)
             = key (changeState E (ca_method a) (ca_url a) (ca_as a) (ca_options a) r)"
    by (cases "ca_method a") (simp_all add: changeState_def createKey_def emit_def Let_def)
  show ?thesis
    using e
    by (simp add: change_commit_def Let_def commit_settled_keeps set_state_def split: prod.splits)
qed

lemma onlyAHashChange_same:
  assumes "st_asPath (state r) = cleanedAs"
  shows "onlyAHashChange r cleanedAs \<longleftrightarrow> truthy_str (snd (hash_parts cleanedAs))"
proof (cases "cleanedAs = []")
  case True
  with assms show ?thesis
    by (simp add: onlyAHashChange_def hash_parts_def truthy_str_def)
next
  case False
  with assms show ?thesis
    by (auto simp add: onlyAHashChange_def Let_def split: prod.splits)
qed

lemma change_hash_only_history:
  "history_back (win (snd (change_hash_only E method url as cleanedAs options nextState r)))
     = history_back (win (changeState E method url as (options\<lparr>to_scroll := Some False\<rparr>) r))
   \<and> history_current (win (snd (change_hash_only E method url as cleanedAs options nextState r)))
     = history_current (win (changeState E method url as (options\<lparr>to_scroll := Some False\<rparr>) r))
   \<and> key (snd (change_hash_only E method url as cleanedAs options nextState r))
     = key (changeState E method url as (options\<lparr>to_scroll := Some False\<rparr>) r)"
proof -
  let ?sh = "case to_shallow options of None \<Rightarrow> False | Some b \<Rightarrow> b"
  let ?o = "options\<lparr>to_scroll := Some False\<rparr>"
  have e: "win (changeState E method url as ?o (emit (HashChangeStart as ?sh) r))
             = win (changeState E method url as ?o r)
         \<and> key (changeState E method url as ?o (emit (HashChangeStart as ?sh) r))
             = key (changeState E method url as ?o r)"
    by (cases "method") (simp_all add: changeState_def createKey_def emit_def Let_def)
  show ?thesis
    using e
    by (simp add: change_hash_only_def Let_def set_state_def emit_def scrollToHash_def
          split: prod.splits option.splits)
qed

text \<open>
  A router whose \<open>asPath\<close> is \<open>/about#x\<close> while the browser shows \<open>/about#y\<close>, as after a
  click on a plain anchor, which the router reconciles without touching its state.
\<close>

definition anchor_router :: router where
  "anchor_router =
     (sample_router ''/about'')
       \<lparr>state := (sample_state ''/about'')\<lparr>st_asPath := ''/about#x''\<rparr>,
        win := sample_browser ''/about#y''\<rparr>"

text \<open>
  Claim C10, as amended. A navigation to the current \<open>asPath\<close> is taken as a change of
  the hash only exactly when it is not a query update, the locale does not change and the
  \<open>asPath\<close> has a non-empty hash. A navigation to the current \<open>asPath\<close> without a change of
  locale that goes on to the page list has its method set to \<open>replaceState\<close>, and its
  commit leaves the length of the history and the key as they are. A \<open>pushState\<close> to the
  URL the browser shows writes nothing. In the hash-only branch the method is used as
  given: a \<open>pushState\<close> to a URL other than the one the browser shows adds an entry with a
  newly drawn key.
\<close>

theorem same_asPath_history_method:
  "(\<not> urlIsNew r1 cleanedAs \<longrightarrow>
      (is_hash_only r1 options cleanedAs localeChange
         \<longleftrightarrow> \<not> isQueryUpdating options \<and> \<not> localeChange \<and> truthy_str (snd (hash_parts cleanedAs))))
   \<and> (\<not> urlIsNew r1 cleanedAs \<and> \<not> localeChange \<longrightarrow>
        change_history_method r1 meth cleanedAs localeChange = ReplaceState
        \<and> history_length (win (snd (change_commit E
              (a\<lparr>ca_method := change_history_method r1 meth cleanedAs localeChange\<rparr>) r2)))
            = history_length (win r2)
        \<and> key (snd (change_commit E
              (a\<lparr>ca_method := change_history_method r1 meth cleanedAs localeChange\<rparr>) r2))
            = key r2)
   \<and> (getURL (win r2) = as \<longrightarrow> changeState E PushState url as options r2 = r2)
   \<and> (getURL (win r2) \<noteq> as \<longrightarrow>
        history_back (win (snd (change_hash_only E PushState url as cleanedAs options nextState r2)))
          = history_current (win r2) # history_back (win r2)
        \<and> key (snd (change_hash_only E PushState url as cleanedAs options nextState r2))
          = env_random E (key_draws r2))"
proof (intro conjI impI)
  assume "\<not> urlIsNew r1 cleanedAs"
  then have "st_asPath (state r1) = cleanedAs" by (simp add: urlIsNew_def)
  then have "onlyAHashChange r1 cleanedAs \<longleftrightarrow> truthy_str (snd (hash_parts cleanedAs))"
    by (rule onlyAHashChange_same)
  then show "is_hash_only r1 options cleanedAs localeChange
         \<longleftrightarrow> \<not> isQueryUpdating options \<and> \<not> localeChange \<and> truthy_str (snd (hash_parts cleanedAs))"
    by (auto simp add: is_hash_only_def)
next
  assume a: "\<not> urlIsNew r1 cleanedAs \<and> \<not> localeChange"
  then show m: "change_history_method r1 meth cleanedAs localeChange = ReplaceState"
    by (simp add: change_history_method_def)
  let ?a = "a\<lparr>ca_method := change_history_method r1 meth cleanedAs localeChange\<rparr>"
  have ma: "ca_method ?a = ReplaceState" using m by simp
  show "history_length (win (snd (change_commit E ?a r2))) = history_length (win r2)"
    using change_commit_history [of E ?a r2]
      changeState_replace_history [of E "ca_url ?a" "ca_as ?a" "ca_options ?a" r2]
    unfolding ma by (simp add: history_length_def)
  show "key (snd (change_commit E ?a r2)) = key r2"
    using change_commit_history [of E ?a r2]
      changeState_replace_history [of E "ca_url ?a" "ca_as ?a" "ca_options ?a" r2]
    unfolding ma by simp
next
  assume "getURL (win r2) = as"
  then show "changeState E PushState url as options r2 = r2"
    by (simp add: changeState_same_url)
next
  assume n: "getURL (win r2) \<noteq> as"
  show "history_back (win (snd (change_hash_only E PushState url as cleanedAs options nextState r2)))
          = history_current (win r2) # history_back (win r2)"
    using change_hash_only_history [of E PushState url as cleanedAs options nextState r2]
      changeState_push_history [OF n, of E url "options\<lparr>to_scroll := Some False\<rparr>"]
    by simp
  show "key (snd (change_hash_only E PushState url as cleanedAs options nextState r2))
          = env_random E (key_draws r2)"
    using change_hash_only_history [of E PushState url as cleanedAs options nextState r2]
      changeState_push_history [OF n, of E url "options\<lparr>to_scroll := Some False\<rparr>"]
    by simp
qed

text \<open>
  On the sample router at \<open>/about\<close>: a push to \<open>/about\<close> is committed with \<open>replaceState\<close>
  and leaves one history entry with the key \<open>init\<close>; a \<open>pushState\<close> to the URL shown
  writes nothing; a hash-only push to \<open>/about#x\<close> writes an entry with the new key \<open>k\<close>.
\<close>

theorem same_asPath_history_method_witness:
  "change_history_method (sample_router ''/about'') PushState ''/about'' False = ReplaceState
   \<and> history_length (win (snd (change_commit sample_env
        ((sample_commit PushState ''/about'' ''/about'' no_options)
           \<lparr>ca_method := change_history_method (sample_router ''/about'') PushState ''/about'' False\<rparr>)
        (sample_router ''/about'')))) = 1
   \<and> key (snd (change_commit sample_env
        ((sample_commit PushState ''/about'' ''/about'' no_options)
           \<lparr>ca_method := change_history_method (sample_router ''/about'') PushState ''/about'' False\<rparr>)
        (sample_router ''/about''))) = ''init''
   \<and> changeState sample_env PushState ''/about'' ''/about'' no_options (sample_router ''/about'')
        = sample_router ''/about''
   \<and> key (snd (change_hash_only sample_env PushState ''/about#x'' ''/about#x'' ''/about#x'' no_options
        (sample_state ''/about'') (sample_router ''/about''))) = ''k''"
proof -
  let ?R = "sample_router ''/about''"
  let ?a = "sample_commit PushState ''/about'' ''/about'' no_options"
  note t = same_asPath_history_method [where ?r1.0 = ?R and cleanedAs = "''/about''"
      and options = no_options and localeChange = False and meth = PushState
      and E = sample_env and a = ?a and ?r2.0 = ?R and url = "''/about''"
      and nextState = "sample_state ''/about''"]
  have h2: "\<not> urlIsNew ?R ''/about'' \<and> \<not> False" by code_simp
  have e1: "history_length (win ?R) = 1" by code_simp
  have e2: "key ?R = ''init''" by code_simp
  note c2 = mp [OF conjunct1 [OF conjunct2 [OF t [where as = "''/about''"]]] h2]
  from c2 have r1: "change_history_method ?R PushState ''/about'' False = ReplaceState"
    by (rule conjunct1)
  have r2: "history_length (win (snd (change_commit sample_env
        (?a\<lparr>ca_method := change_history_method ?R PushState ''/about'' False\<rparr>) ?R))) = 1"
    by (rule trans [OF conjunct1 [OF conjunct2 [OF c2]] e1])
  have r3: "key (snd (change_commit sample_env
        (?a\<lparr>ca_method := change_history_method ?R PushState ''/about'' False\<rparr>) ?R)) = ''init''"
    by (rule trans [OF conjunct2 [OF conjunct2 [OF c2]] e2])
  have h3: "getURL (win ?R) = ''/about''" by code_simp
  have r4: "changeState sample_env PushState ''/about'' ''/about'' no_options ?R = ?R"
    by (rule mp [OF conjunct1 [OF conjunct2 [OF conjunct2 [OF t [where as = "''/about''"]]]] h3])
  have h4: "getURL (win ?R) \<noteq> ''/about#x''" by code_simp
  have e4: "env_random sample_env (key_draws ?R) = ''k''" by code_simp
  note t' = same_asPath_history_method [where ?r1.0 = ?R and cleanedAs = "''/about#x''"
      and options = no_options and localeChange = False and meth = PushState
      and E = sample_env and a = ?a and ?r2.0 = ?R and url = "''/about#x''"
      and nextState = "sample_state ''/about''" and as = "''/about#x''"]
  have r5: "key (snd (change_hash_only sample_env PushState ''/about#x'' ''/about#x'' ''/about#x'' no_options
        (sample_state ''/about'') ?R)) = ''k''"
    by (rule trans [OF conjunct2 [OF mp [OF conjunct2 [OF conjunct2 [OF conjunct2 [OF t']]] h4]] e4])
  from r1 r2 r3 r4 r5 show ?thesis by (intro conjI)
qed

text \<open>
  The claim as stated fails for a push to the current \<open>asPath\<close> when that has a hash: the
  navigation is a hash-only change, the method stays \<open>pushState\<close>, and since the browser
  shows another URL the history gains an entry with a new key.
\<close>

theorem same_asPath_push_counterexample:
  "\<not> urlIsNew anchor_router ''/about#x''
   \<and> is_hash_only anchor_router no_options ''/about#x'' False
   \<and> history_length (win anchor_router) = 1
   \<and> key anchor_router = ''init''
   \<and> history_length (win (snd (change_hash_only sample_env PushState ''/about#x'' ''/about#x'' ''/about#x''
        no_options (state anchor_router) anchor_router))) = 2
   \<and> key (snd (change_hash_only sample_env PushState ''/about#x'' ''/about#x'' ''/about#x''
        no_options (state anchor_router) anchor_router)) = ''k''"
  by code_simp

section \<open>The data-fetch cache\<close>

subsection \<open>fetchNextData\<close>

record fetch_params =
  fp_dataHref :: string
  fp_isServerRender :: bool
  fp_parseJSON :: bool
  fp_hasMiddleware :: bool
  fp_persistCache :: bool
  fp_isPrefetch :: bool
  fp_isBackground :: bool
  fp_skipClientCache :: bool




datatype http_method = GET | HEAD


text \<open>The request of \<open>getData\<close> and what its promise settles to, given how \<open>fetchRetry\<close> settled.\<close>

definition getData_options :: "fetch_params \<Rightarrow> http_method option \<Rightarrow> fetch_options" where
  "getData_options p m =
     \<lparr>opt_method = Some (case m of Some HEAD \<Rightarrow> ''HEAD'' | _ \<Rightarrow> ''GET''),
      opt_headers = (if fp_isPrefetch p then [(''purpose'', ''prefetch'')] else [])\<rparr>"

definition getData_attempts :: "fetch_params \<Rightarrow> int" where
  "getData_attempts p = (if fp_isServerRender p then 3 else 1)"












subsection \<open>Properties of the cache\<close>


















subsection \<open>A sample data fetch\<close>






section \<open>Cancellation\<close>

subsection \<open>The cancel functions\<close>

text \<open>
  \<open>getCancelledHandler\<close> makes a closure with a variable \<open>cancelled\<close>, false at first, and
  stores its \<open>cancel\<close> function in \<open>router.clc\<close>. The closure is named by a new number; its
  variable is true when the number is in \<open>cancel_flags\<close>. The handler it returns throws
  when the variable is true, and otherwise clears \<open>router.clc\<close> if that is still its own
  \<open>cancel\<close>.
\<close>

definition getCancelledHandler :: "router \<Rightarrow> nat \<times> router" where
  "getCancelledHandler r =
     (next_closure r, r\<lparr>clc := Some (next_closure r), next_closure := Suc (next_closure r)\<rparr>)"

definition abort_error :: "string \<Rightarrow> js_error" where
  "abort_error route =
     (mk_error (''Abort fetching component for route: '' @ [CHR 0x22] @ route @ [CHR 0x22]))
       \<lparr>cancelled := True\<rparr>"

definition handleCancelled :: "string \<Rightarrow> nat \<Rightarrow> router \<Rightarrow> js_error + router" where
  "handleCancelled route t r =
     (if List.member (cancel_flags r) t then Inl (abort_error route)
      else Inr (if clc r = Some t then r\<lparr>clc := None\<rparr> else r))"

text \<open>
  The start of a navigation cancels the one in flight (lines 1305 to 1316 of \<open>change\<close>):
  when there is a route in flight and a live cancel function, the cancellation is
  announced unless the router was still in its server-rendered state, the cancel function
  is called and \<open>clc\<close> is cleared.
\<close>

definition change_cancel_inflight :: "bool \<Rightarrow> bool \<Rightarrow> router \<Rightarrow> router" where
  "change_cancel_inflight wasSsr shallow r =
     (case (inFlightRoute r, clc r) of
        (Some inFlight, Some t) \<Rightarrow>
          if inFlight = [] then r
          else
            let r1 = (if \<not> wasSsr
                      then emit (RouteChangeError buildCancellationError inFlight shallow) r
                      else r)
            in r1\<lparr>cancel_flags := t # cancel_flags r1, clc := None\<rparr>
      | _ \<Rightarrow> r)"

subsection \<open>fetchComponent and _getData\<close>




text \<open>
  \<open>_getData\<close> has a closure of its own. Its \<open>then\<close> runs only when the function it was given
  has fulfilled: it clears \<open>clc\<close> if that is still its own \<open>cancel\<close> and throws when
  \<open>cancelled\<close> is true. A rejection passes through unchanged.
\<close>

definition getData_begin :: "router \<Rightarrow> nat \<times> router" where
  "getData_begin r =
     (next_closure r, r\<lparr>clc := Some (next_closure r), next_closure := Suc (next_closure r)\<rparr>)"



subsection \<open>How a cancellation leaves change\<close>








subsection \<open>What change does with the route info\<close>







subsection \<open>What the router does between two points of a navigation\<close>

text \<open>
  The steps of the router that touch the cancel functions, the state, the cache of
  components, the flags or the browser (any change of it: the history, a hard navigation,
  a reload, the scroll position); \<open>steps\<close> is any number of them.
\<close>

inductive step :: "router_env \<Rightarrow> router \<Rightarrow> router \<Rightarrow> bool" for E where
  step_handler: "step E r (snd (getCancelledHandler r))"
| step_checked: "handleCancelled route t r = Inr r' \<Longrightarrow> step E r r'"
| step_getData: "step E r (snd (getData_begin r))"
| step_getData_cleared: "step E r (if clc r = Some t then r\<lparr>clc := None\<rparr> else r)"
| step_cancel: "step E r (change_cancel_inflight wasSsr shallow r)"
| step_inFlight: "step E r (r\<lparr>inFlightRoute := Some as\<rparr>)"
| step_changeState: "step E r (changeState E m url as options r)"
| step_set: "step E r (snd (set_state E st data sc r))"
| step_emit: "step E r (emit ev r)"
| step_components: "step E r (r\<lparr>components := cs\<rparr>)"
| step_flags: "step E r (r\<lparr>isSsr := a, isReady := b, isFirstPopStateEvent := c\<rparr>)"
| step_window: "step E r (r\<lparr>win := w\<rparr>)"



subsection \<open>A superseded navigation\<close>














section \<open>Data that says the page was not found\<close>










end
